theory Spec2Isabelle
  imports Main "HOL-Library.Word"
begin

section \<open>Data model of the sandbox platform\<close>

text \<open>
  Identifiers, names and messages are compared by equality only and are plain strings.
  Log text is inspected by regular expressions and by \<^verbatim>\<open>trimEnd\<close>; it is a
  sequence of UTF-16 code units, kept as natural numbers.  Time stamps are milliseconds.
  JSON objects (\<^verbatim>\<open>Record<string, string>\<close>) are association lists.  The
  \<^verbatim>\<open>DECIMAL(3,2)\<close> cpu column is kept in hundredths of a CPU.
\<close>

type_synonym uuid = string
type_synonym jsstring = "nat list"
type_synonym timestamp = int
type_synonym json_object = "(string \<times> string) list"

record PortMapping =
  container :: nat
  host :: nat

datatype SandboxStatus = S_pending | S_running | S_stopped | S_error | S_expired

datatype SandboxPhase =
  P_creating | P_starting | P_healthy | P_stopping | P_stopped | P_failed

datatype log_type = stdout | stderr

record DbEnvironment =
  env_id :: uuid
  env_user_id :: uuid
  env_name :: string
  env_current_version_id :: "uuid option"
  env_created_at :: timestamp
  env_updated_at :: timestamp

record DbEnvironmentVersion =
  ver_id :: uuid
  ver_environment_id :: uuid
  ver_version :: int
  ver_image :: "string option"
  ver_dockerfile :: "string option"
  ver_build_files :: json_object
  ver_command :: "string list option"
  ver_cpu :: nat
  ver_memory :: nat
  ver_ports :: "PortMapping list"
  ver_env :: json_object
  ver_secrets :: json_object
  ver_mounts :: json_object
  ver_created_at :: timestamp

record DbSandbox =
  sb_id :: uuid
  sb_user_id :: uuid
  sb_environment_id :: uuid
  sb_environment_version_id :: uuid
  sb_name :: string
  sb_container_id :: "string option"
  sb_status :: SandboxStatus
  sb_phase :: SandboxPhase
  sb_ports :: "PortMapping list"
  sb_created_at :: timestamp
  sb_started_at :: "timestamp option"
  sb_stopped_at :: "timestamp option"
  sb_expires_at :: "timestamp option"
  sb_provision_progress :: nat
  sb_provision_status :: string

record DbSandboxLog =
  log_sandbox_id :: uuid
  log_type :: log_type
  log_text :: jsstring
  log_timestamp :: timestamp

text \<open>Errors thrown by the services; \<open>DbError\<close> carries the PostgreSQL error code.\<close>

datatype error =
  NotFoundError string
  | QuotaExceededError string
  | Error string
  | DbError string
  | DockerError nat

text \<open>Calls to the container runtime, and background tasks started without awaiting them.\<close>

datatype docker_call =
  StartContainer string
  | StopContainer string
  | RestartContainer string
  | RemoveContainer string
  | CreateInteractiveExec string

record EnvironmentVersion =
  v_id :: uuid
  v_environmentId :: uuid
  v_version :: int
  v_image :: string
  v_dockerfile :: "string option"
  v_buildFiles :: json_object
  v_cpu :: nat
  v_memory :: nat
  v_ports :: "PortMapping list"
  v_env :: json_object
  v_secrets :: json_object
  v_mounts :: json_object
  v_createdAt :: timestamp

datatype task =
  ProvisionSandbox uuid uuid EnvironmentVersion json_object
  | CollectLogs uuid string
  | StreamContainerLogs uuid string timestamp

text \<open>
  The state the services act on: the four tables they query, the runtime calls made so
  far and the background tasks started so far.
\<close>

record state =
  environments :: "DbEnvironment list"
  environment_versions :: "DbEnvironmentVersion list"
  sandboxes :: "DbSandbox list"
  sandbox_logs :: "DbSandboxLog list"
  docker_calls :: "docker_call list"
  tasks :: "task list"

section \<open>Store primitives\<close>

text \<open>\<^verbatim>\<open>queryOne\<close> returns the first row of the result, or null.\<close>

definition queryOne :: "('a \<Rightarrow> bool) \<Rightarrow> 'a list \<Rightarrow> 'a option" where
  "queryOne p rows = (case filter p rows of [] \<Rightarrow> None | r # _ \<Rightarrow> Some r)"

text \<open>JavaScript truthiness of an optional string: null, undefined and the empty string are falsy.\<close>

definition truthy :: "string option \<Rightarrow> bool" where
  "truthy x = (case x of None \<Rightarrow> False | Some v \<Rightarrow> v \<noteq> [])"

definition or_null :: "string option \<Rightarrow> string option" where
  "or_null x = (if truthy x then x else None)"

section \<open>Regular expressions and log redaction\<close>

text \<open>The code units of an ASCII literal.\<close>

definition js :: "string \<Rightarrow> jsstring" where
  "js lit = map of_char lit"

text \<open>
  The character classes of JavaScript regular expressions on code units: \<^verbatim>\<open>\s\<close> (white
  space and line terminators, also what \<^verbatim>\<open>trimEnd\<close> removes), \<^verbatim>\<open>\d\<close>,
  \<^verbatim>\<open>\w\<close> and \<^verbatim>\<open>[a-zA-Z0-9]\<close>.  Under the flag \<^verbatim>\<open>i\<close> (without \<^verbatim>\<open>u\<close>) two
  code units match when they canonicalize to the same unit; a unit outside ASCII never
  canonicalizes to an ASCII one, so against the ASCII characters of the patterns below
  canonicalization is \<open>upper\<close>.
\<close>

definition is_space :: "nat \<Rightarrow> bool" where
  "is_space c =
     (c \<in> {9, 10, 11, 12, 13, 32, 160, 5760, 8232, 8233, 8239, 8287, 12288, 65279} \<or>
      (8192 \<le> c \<and> c \<le> 8202))"

definition is_digit :: "nat \<Rightarrow> bool" where
  "is_digit c = (48 \<le> c \<and> c \<le> 57)"

definition is_letter :: "nat \<Rightarrow> bool" where
  "is_letter c = ((65 \<le> c \<and> c \<le> 90) \<or> (97 \<le> c \<and> c \<le> 122))"

datatype cclass = Digit | Word | Space | NonSpace | Alnum

fun in_class :: "cclass \<Rightarrow> nat \<Rightarrow> bool" where
  "in_class Digit c = is_digit c"
| "in_class Word c = (is_letter c \<or> is_digit c \<or> c = 95)"
| "in_class Space c = is_space c"
| "in_class NonSpace c = (\<not> is_space c)"
| "in_class Alnum c = (is_letter c \<or> is_digit c)"

definition upper :: "nat \<Rightarrow> nat" where
  "upper c = (if 97 \<le> c \<and> c \<le> 122 then c - 32 else c)"

text \<open>
  The patterns in the source are sequences of: a literal character, a literal under the
  flag \<^verbatim>\<open>i\<close>, one character of a class, and a greedy \<^verbatim>\<open>+\<close> over a class.
  \<open>rmatch\<close> matches such a sequence at the start of a string and returns what follows
  the match; \<open>rplus\<close> is the greedy loop after its first character, which backtracks one
  character at a time.
\<close>

datatype re_item = Chr nat | ChrI nat | One cclass | Plus cclass

fun rmatch :: "re_item list \<Rightarrow> jsstring \<Rightarrow> jsstring option"
  and rplus :: "cclass \<Rightarrow> re_item list \<Rightarrow> jsstring \<Rightarrow> jsstring option" where
  "rmatch [] s = Some s"
| "rmatch (Chr a # items) [] = None"
| "rmatch (Chr a # items) (x # xs) = (if x = a then rmatch items xs else None)"
| "rmatch (ChrI a # items) [] = None"
| "rmatch (ChrI a # items) (x # xs) = (if upper x = upper a then rmatch items xs else None)"
| "rmatch (One k # items) [] = None"
| "rmatch (One k # items) (x # xs) = (if in_class k x then rmatch items xs else None)"
| "rmatch (Plus k # items) [] = None"
| "rmatch (Plus k # items) (x # xs) = (if in_class k x then rplus k items xs else None)"
| "rplus k items [] = rmatch items []"
| "rplus k items (x # xs) =
     (if in_class k x
      then (case rplus k items xs of Some r \<Rightarrow> Some r | None \<Rightarrow> rmatch items (x # xs))
      else rmatch items (x # xs))"

text \<open>
  \<^verbatim>\<open>String.prototype.replace\<close> with a global pattern and a replacement without
  \<^verbatim>\<open>$\<close>: scan from the left, replace each match and continue after it; after an
  empty match copy one character and continue.
\<close>

fun replace_all :: "re_item list \<Rightarrow> jsstring \<Rightarrow> jsstring \<Rightarrow> jsstring" where
  "replace_all p rep [] = (case rmatch p [] of Some r \<Rightarrow> rep | None \<Rightarrow> [])"
| "replace_all p rep (x # xs) =
     (case rmatch p (x # xs) of
        None \<Rightarrow> x # replace_all p rep xs
      | Some r \<Rightarrow>
          if length r < Suc (length xs) then rep @ replace_all p rep r
          else rep @ x # replace_all p rep xs)"

definition ci :: "string \<Rightarrow> re_item list" where
  "ci lit = map (\<lambda>c. ChrI (of_char c)) lit"

definition secret_patterns :: "re_item list list" where
  "secret_patterns =
     [ci ''SECRET_'' @ [Plus Word, ChrI 61, Plus NonSpace],
      ci ''API_KEY='' @ [Plus NonSpace],
      ci ''PASSWORD='' @ [Plus NonSpace],
      ci ''TOKEN='' @ [Plus NonSpace],
      ci ''PRIVATE_KEY='' @ [Plus NonSpace],
      ci ''sk_live_'' @ [Plus Alnum],
      ci ''sk_test_'' @ [Plus Alnum]]"

definition REDACTED :: jsstring where
  "REDACTED = js ''[REDACTED]''"

definition redactSecrets :: "jsstring \<Rightarrow> jsstring" where
  "redactSecrets text = fold (\<lambda>p redacted. replace_all p REDACTED redacted) secret_patterns text"


text \<open>Auxiliary notions for reasoning about the patterns.\<close>

fun no_match :: "re_item list \<Rightarrow> jsstring \<Rightarrow> bool" where
  "no_match p [] = (rmatch p [] = None)"
| "no_match p (x # xs) = (rmatch p (x # xs) = None \<and> no_match p xs)"

fun keyword_shape :: "re_item list \<Rightarrow> bool" where
  "keyword_shape [Plus k] = (k = NonSpace \<or> k = Alnum)"
| "keyword_shape (Plus k # ChrI a # items) = (k = Word \<and> a = 61 \<and> keyword_shape items)"
| "keyword_shape (ChrI a # items) = (upper a \<noteq> 91 \<and> keyword_shape items)"
| "keyword_shape items = False"

fun letter_headed :: "re_item list \<Rightarrow> bool" where
  "letter_headed (ChrI a # items) = is_letter a"
| "letter_headed items = False"


section \<open>Runtime adapter: decoding the log stream\<close>

type_synonym byte = "8 word"



definition readUInt32BE :: "byte list \<Rightarrow> nat \<Rightarrow> nat" where
  "readUInt32BE buf off =
     unat (buf ! off) * 2 ^ 24 + unat (buf ! (off + 1)) * 2 ^ 16 +
     unat (buf ! (off + 2)) * 2 ^ 8 + unat (buf ! (off + 3))"










section \<open>Environment service\<close>

definition MAX_ENVIRONMENTS_PER_USER :: nat where
  "MAX_ENVIRONMENTS_PER_USER = 5"

record EnvironmentVersionResponse =
  vr_id :: uuid
  vr_version :: int
  vr_image :: string
  vr_cpu :: nat
  vr_memory :: nat
  vr_ports :: "PortMapping list"
  vr_env :: json_object
  vr_secrets :: "string list"
  vr_mounts :: json_object
  vr_createdAt :: timestamp

record EnvironmentResponse =
  er_id :: uuid
  er_name :: string
  er_currentVersionId :: "uuid option"
  er_version :: "EnvironmentVersionResponse option"
  er_createdAt :: timestamp
  er_updatedAt :: timestamp

definition mapVersion :: "DbEnvironmentVersion \<Rightarrow> EnvironmentVersion" where
  "mapVersion row =
     \<lparr> v_id = ver_id row,
       v_environmentId = ver_environment_id row,
       v_version = ver_version row,
       v_image = (case or_null (ver_image row) of None \<Rightarrow> [] | Some i \<Rightarrow> i),
       v_dockerfile = or_null (ver_dockerfile row),
       v_buildFiles = ver_build_files row,
       v_cpu = ver_cpu row,
       v_memory = ver_memory row,
       v_ports = ver_ports row,
       v_env = ver_env row,
       v_secrets = ver_secrets row,
       v_mounts = ver_mounts row,
       v_createdAt = ver_created_at row \<rparr>"

text \<open>
  \<^verbatim>\<open>getVersion\<close> and \<^verbatim>\<open>updateEnvironment\<close> select the version without the
  columns \<^verbatim>\<open>dockerfile\<close>, \<^verbatim>\<open>build_files\<close> and \<^verbatim>\<open>command\<close>; in the row
  they read these fields are undefined.
\<close>

definition select_without_build :: "DbEnvironmentVersion \<Rightarrow> DbEnvironmentVersion" where
  "select_without_build row =
     row\<lparr> ver_dockerfile := None, ver_build_files := [], ver_command := None \<rparr>"

definition toResponse_env ::
  "DbEnvironment \<Rightarrow> EnvironmentVersion option \<Rightarrow> EnvironmentResponse" where
  "toResponse_env env version =
     \<lparr> er_id = env_id env,
       er_name = env_name env,
       er_currentVersionId = env_current_version_id env,
       er_version =
         (case version of
            None \<Rightarrow> None
          | Some v \<Rightarrow>
              Some \<lparr> vr_id = v_id v, vr_version = v_version v, vr_image = v_image v,
                     vr_cpu = v_cpu v, vr_memory = v_memory v, vr_ports = v_ports v,
                     vr_env = v_env v, vr_secrets = map fst (v_secrets v),
                     vr_mounts = v_mounts v, vr_createdAt = v_createdAt v \<rparr>),
       er_createdAt = env_created_at env,
       er_updatedAt = env_updated_at env \<rparr>"

definition getEnvironment :: "uuid \<Rightarrow> uuid \<Rightarrow> state \<Rightarrow> EnvironmentResponse option" where
  "getEnvironment userId environmentId s =
     (case queryOne (\<lambda>e. env_id e = environmentId \<and> env_user_id e = userId) (environments s) of
        None \<Rightarrow> None
      | Some envRow \<Rightarrow>
          Some (toResponse_env envRow
            (if truthy (env_current_version_id envRow)
             then map_option mapVersion
                    (queryOne (\<lambda>v. Some (ver_id v) = env_current_version_id envRow)
                       (environment_versions s))
             else None)))"

definition getVersion :: "uuid \<Rightarrow> state \<Rightarrow> EnvironmentVersion option" where
  "getVersion versionId s =
     map_option (mapVersion \<circ> select_without_build)
       (queryOne (\<lambda>v. ver_id v = versionId) (environment_versions s))"

record Environment =
  e_id :: uuid
  e_userId :: uuid
  e_name :: string
  e_currentVersionId :: "uuid option"
  e_createdAt :: timestamp
  e_updatedAt :: timestamp

definition mapEnvironment :: "DbEnvironment \<Rightarrow> Environment" where
  "mapEnvironment row =
     \<lparr> e_id = env_id row, e_userId = env_user_id row, e_name = env_name row,
       e_currentVersionId = env_current_version_id row,
       e_createdAt = env_created_at row, e_updatedAt = env_updated_at row \<rparr>"

record CreateEnvironmentData =
  ce_name :: string
  ce_image :: "string option"
  ce_dockerfile :: "string option"
  ce_buildFiles :: "json_object option"
  ce_cpu :: "nat option"
  ce_memory :: "nat option"
  ce_ports :: "PortMapping list option"
  ce_env :: "json_object option"
  ce_mounts :: "json_object option"

record UpdateEnvironmentData =
  ue_image :: "string option"
  ue_cpu :: "nat option"
  ue_memory :: "nat option"
  ue_ports :: "PortMapping list option"
  ue_env :: "json_object option"
  ue_mounts :: "json_object option"

text \<open>The refinement of \<^verbatim>\<open>CreateEnvironmentSchema\<close>: \<^verbatim>\<open>data.image || data.dockerfile\<close>.\<close>

definition CreateEnvironmentSchema_refine :: "CreateEnvironmentData \<Rightarrow> bool" where
  "CreateEnvironmentSchema_refine data = (truthy (ce_image data) \<or> truthy (ce_dockerfile data))"

text \<open>The nullish coalescing operator \<^verbatim>\<open>a ?? b\<close>.\<close>

definition nullish :: "'a option \<Rightarrow> 'a \<Rightarrow> 'a" where
  "nullish a b = (case a of Some v \<Rightarrow> v | None \<Rightarrow> b)"

text \<open>
  Inserts with the constraints of the schema: primary keys, \<^verbatim>\<open>UNIQUE(user_id, name)\<close>
  on environments and \<^verbatim>\<open>UNIQUE(environment_id, version)\<close> on versions.
\<close>

definition insert_environment :: "DbEnvironment \<Rightarrow> state \<Rightarrow> error + state" where
  "insert_environment row s =
     (if \<exists>e \<in> set (environments s).
           env_id e = env_id row \<or> (env_user_id e = env_user_id row \<and> env_name e = env_name row)
      then Inl (DbError ''23505'')
      else Inr (s\<lparr> environments := environments s @ [row] \<rparr>))"

definition insert_version :: "DbEnvironmentVersion \<Rightarrow> state \<Rightarrow> error + state" where
  "insert_version row s =
     (if \<exists>v \<in> set (environment_versions s).
           ver_id v = ver_id row \<or>
           (ver_environment_id v = ver_environment_id row \<and> ver_version v = ver_version row)
      then Inl (DbError ''23505'')
      else Inr (s\<lparr> environment_versions := environment_versions s @ [row] \<rparr>))"

definition update_environment_row ::
  "uuid \<Rightarrow> (DbEnvironment \<Rightarrow> DbEnvironment) \<Rightarrow> state \<Rightarrow> state" where
  "update_environment_row environmentId f s =
     s\<lparr> environments := map (\<lambda>e. if env_id e = environmentId then f e else e) (environments s) \<rparr>"

text \<open>
  \<^verbatim>\<open>createEnvironment\<close>.  The ids the store generates and the clock are inputs.  The
  inserts run in one transaction: when one throws, the state is the one before the call.
\<close>

definition createEnvironment ::
  "uuid \<Rightarrow> CreateEnvironmentData \<Rightarrow> uuid \<Rightarrow> uuid \<Rightarrow> timestamp \<Rightarrow> state
     \<Rightarrow> (error + Environment \<times> EnvironmentVersion) \<times> state" where
  "createEnvironment userId data new_env_id new_ver_id now s =
     (if \<not> truthy (ce_image data) \<and> \<not> truthy (ce_dockerfile data)
      then (Inl (Error ''Either image or dockerfile must be provided''), s)
      else if length (filter (\<lambda>e. env_user_id e = userId) (environments s))
                \<ge> MAX_ENVIRONMENTS_PER_USER
      then (Inl (QuotaExceededError ''Maximum 5 environments allowed per user''), s)
      else
        (let envRow =
               \<lparr> env_id = new_env_id, env_user_id = userId, env_name = ce_name data,
                 env_current_version_id = None, env_created_at = now, env_updated_at = now \<rparr>;
             versionRow =
               \<lparr> ver_id = new_ver_id, ver_environment_id = new_env_id, ver_version = 1,
                 ver_image = or_null (ce_image data),
                 ver_dockerfile = or_null (ce_dockerfile data),
                 ver_build_files = nullish (ce_buildFiles data) [],
                 ver_command = None,
                 ver_cpu = nullish (ce_cpu data) 200,
                 ver_memory = nullish (ce_memory data) 512,
                 ver_ports = nullish (ce_ports data) [],
                 ver_env = nullish (ce_env data) [],
                 ver_secrets = [],
                 ver_mounts = nullish (ce_mounts data) [],
                 ver_created_at = now \<rparr>
         in case insert_environment envRow s of
              Inl e \<Rightarrow> (Inl e, s)
            | Inr s1 \<Rightarrow>
                (case insert_version versionRow s1 of
                   Inl e \<Rightarrow> (Inl e, s)
                 | Inr s2 \<Rightarrow>
                     (Inr (mapEnvironment (envRow\<lparr> env_current_version_id := Some new_ver_id \<rparr>),
                           mapVersion versionRow),
                      update_environment_row new_env_id
                        (\<lambda>e. e\<lparr> env_current_version_id := Some new_ver_id \<rparr>) s2))))"

text \<open>
  \<^verbatim>\<open>updateEnvironment\<close>.  The version is read and written without the columns
  \<^verbatim>\<open>dockerfile\<close>, \<^verbatim>\<open>build_files\<close> and \<^verbatim>\<open>command\<close>: the new row takes their
  column defaults.
\<close>

definition updateEnvironment ::
  "uuid \<Rightarrow> uuid \<Rightarrow> UpdateEnvironmentData \<Rightarrow> uuid \<Rightarrow> timestamp \<Rightarrow> state
     \<Rightarrow> (error + Environment \<times> EnvironmentVersion) \<times> state" where
  "updateEnvironment userId environmentId data new_ver_id now s =
     (case queryOne (\<lambda>e. env_id e = environmentId \<and> env_user_id e = userId) (environments s) of
        None \<Rightarrow> (Inl (NotFoundError ''Environment not found''), s)
      | Some envRow \<Rightarrow>
          (case queryOne (\<lambda>v. Some (ver_id v) = env_current_version_id envRow)
                  (environment_versions s) of
             None \<Rightarrow> (Inl (Error ''Environment version not found''), s)
           | Some currentVersion \<Rightarrow>
               (let versionRow =
                      \<lparr> ver_id = new_ver_id, ver_environment_id = environmentId,
                        ver_version = ver_version currentVersion + 1,
                        ver_image =
                          (case ue_image data of
                             Some i \<Rightarrow> Some i | None \<Rightarrow> ver_image currentVersion),
                        ver_dockerfile = None,
                        ver_build_files = [],
                        ver_command = None,
                        ver_cpu = nullish (ue_cpu data) (ver_cpu currentVersion),
                        ver_memory = nullish (ue_memory data) (ver_memory currentVersion),
                        ver_ports = nullish (ue_ports data) (ver_ports currentVersion),
                        ver_env = nullish (ue_env data) (ver_env currentVersion),
                        ver_secrets = ver_secrets currentVersion,
                        ver_mounts = nullish (ue_mounts data) (ver_mounts currentVersion),
                        ver_created_at = now \<rparr>
                in case insert_version versionRow s of
                     Inl e \<Rightarrow> (Inl e, s)
                   | Inr s1 \<Rightarrow>
                       (Inr (mapEnvironment
                               (envRow\<lparr> env_current_version_id := Some new_ver_id \<rparr>),
                             mapVersion (select_without_build versionRow)),
                        update_environment_row environmentId
                          (\<lambda>e. e\<lparr> env_current_version_id := Some new_ver_id,
                                   env_updated_at := now \<rparr>) s1))))"

section \<open>Sandbox service\<close>

definition MAX_SANDBOXES_PER_USER :: nat where
  "MAX_SANDBOXES_PER_USER = 10"

record Endpoint =
  ep_port :: nat
  ep_url :: string

record SandboxResponse =
  sr_id :: uuid
  sr_name :: string
  sr_environmentId :: uuid
  sr_environmentVersionId :: uuid
  sr_status :: SandboxStatus
  sr_phase :: SandboxPhase
  sr_ports :: "PortMapping list"
  sr_endpoints :: "Endpoint list"
  sr_createdAt :: timestamp
  sr_startedAt :: "timestamp option"
  sr_stoppedAt :: "timestamp option"
  sr_expiresAt :: "timestamp option"
  sr_logsPreview :: "jsstring list option"
  sr_provisionProgress :: nat
  sr_provisionStatus :: string

record CreateSandboxData =
  cs_environmentId :: uuid
  cs_environmentVersionId :: "uuid option"
  cs_name :: "string option"
  cs_ttlSeconds :: "int option"
  cs_overrides_env :: "json_object option"
  cs_overrides_ports :: "PortMapping list option"

text \<open>Decimal rendering of a number, as a template literal does it.\<close>

fun digits_of :: "nat \<Rightarrow> nat \<Rightarrow> string" where
  "digits_of 0 n = []"
| "digits_of (Suc fuel) n =
     (if n < 10 then [''0123456789'' ! n]
      else digits_of fuel (n div 10) @ [''0123456789'' ! (n mod 10)])"

definition string_of_nat :: "nat \<Rightarrow> string" where
  "string_of_nat n = digits_of (Suc n) n"

definition log_type_name :: "log_type \<Rightarrow> jsstring" where
  "log_type_name t = (case t of stdout \<Rightarrow> js ''stdout'' | stderr \<Rightarrow> js ''stderr'')"

definition toResponse :: "DbSandbox \<Rightarrow> jsstring list option \<Rightarrow> SandboxResponse" where
  "toResponse row logsPreview =
     \<lparr> sr_id = sb_id row,
       sr_name = sb_name row,
       sr_environmentId = sb_environment_id row,
       sr_environmentVersionId = sb_environment_version_id row,
       sr_status = sb_status row,
       sr_phase = sb_phase row,
       sr_ports = sb_ports row,
       sr_endpoints =
         map (\<lambda>p. \<lparr> ep_port = host p, ep_url = ''http://localhost:'' @ string_of_nat (host p) \<rparr>)
           (sb_ports row),
       sr_createdAt = sb_created_at row,
       sr_startedAt = sb_started_at row,
       sr_stoppedAt = sb_stopped_at row,
       sr_expiresAt = sb_expires_at row,
       sr_logsPreview = logsPreview,
       sr_provisionProgress = sb_provision_progress row,
       sr_provisionStatus = sb_provision_status row \<rparr>"

text \<open>
  \<^verbatim>\<open>ORDER BY timestamp DESC LIMIT n\<close> over the log rows of one sandbox.  Rows with
  equal time stamps come in an order the store does not fix; the model takes the later
  inserted row first.
\<close>

definition recent_logs :: "uuid \<Rightarrow> nat \<Rightarrow> state \<Rightarrow> DbSandboxLog list" where
  "recent_logs sandboxId n s =
     take n (rev (sort_key log_timestamp
                    (filter (\<lambda>l. log_sandbox_id l = sandboxId) (sandbox_logs s))))"

definition getSandbox :: "uuid \<Rightarrow> uuid \<Rightarrow> state \<Rightarrow> SandboxResponse option" where
  "getSandbox userId sandboxId s =
     (case queryOne (\<lambda>r. sb_id r = sandboxId \<and> sb_user_id r = userId) (sandboxes s) of
        None \<Rightarrow> None
      | Some row \<Rightarrow>
          Some (toResponse row
            (Some (map (\<lambda>l. js ''['' @ log_type_name (log_type l) @ js ''] '' @ log_text l)
                     (rev (recent_logs sandboxId 5 s))))))"

definition active_status :: "SandboxStatus \<Rightarrow> bool" where
  "active_status st = (st \<noteq> S_stopped \<and> st \<noteq> S_expired \<and> st \<noteq> S_error)"

definition active_count :: "uuid \<Rightarrow> state \<Rightarrow> nat" where
  "active_count userId s =
     length (filter (\<lambda>r. sb_user_id r = userId \<and> active_status (sb_status r)) (sandboxes s))"

text \<open>
  The insert into \<^verbatim>\<open>sandboxes\<close>: the primary key and
  \<^verbatim>\<open>UNIQUE(user_id, environment_id, name)\<close> reject a duplicate with error 23505.
\<close>

definition insert_sandbox :: "DbSandbox \<Rightarrow> state \<Rightarrow> error + state" where
  "insert_sandbox row s =
     (if \<exists>r \<in> set (sandboxes s).
           sb_id r = sb_id row \<or>
           (sb_user_id r = sb_user_id row \<and> sb_environment_id r = sb_environment_id row \<and>
            sb_name r = sb_name row)
      then Inl (DbError ''23505'')
      else Inr (s\<lparr> sandboxes := sandboxes s @ [row] \<rparr>))"

text \<open>
  \<^verbatim>\<open>createSandbox\<close>.  The two random UUIDs (name suffix, sandbox id) and the clock
  are inputs.  The result is what \<^verbatim>\<open>getSandbox\<close> returns, cast to a response.
  \<open>createSandbox_insert\<close> is the tail of the function, from the expiry computation on.
\<close>

definition createSandbox_insert ::
  "uuid \<Rightarrow> CreateSandboxData \<Rightarrow> uuid \<Rightarrow> EnvironmentVersion \<Rightarrow> string \<Rightarrow> uuid \<Rightarrow> timestamp
     \<Rightarrow> state \<Rightarrow> (error + SandboxResponse option) \<times> state" where
  "createSandbox_insert userId data versionId version sandboxName uuid_id now s =
     (let expiresAt =
            (case cs_ttlSeconds data of
               None \<Rightarrow> None
             | Some ttl \<Rightarrow> (if ttl = 0 then None else Some (now + ttl * 1000)));
          ports = (case cs_overrides_ports data of Some ps \<Rightarrow> ps | None \<Rightarrow> v_ports version);
          row =
            \<lparr> sb_id = uuid_id, sb_user_id = userId,
              sb_environment_id = cs_environmentId data,
              sb_environment_version_id = versionId,
              sb_name = sandboxName, sb_container_id = None,
              sb_status = S_pending, sb_phase = P_creating,
              sb_ports = ports, sb_created_at = now,
              sb_started_at = None, sb_stopped_at = None,
              sb_expires_at = expiresAt,
              sb_provision_progress = 0, sb_provision_status = [] \<rparr>
      in case insert_sandbox row s of
           Inl e \<Rightarrow> (Inl e, s)
         | Inr s1 \<Rightarrow>
             (let s2 = s1\<lparr> tasks := tasks s1 @
                        [ProvisionSandbox uuid_id userId version
                           (case cs_overrides_env data of Some e \<Rightarrow> e | None \<Rightarrow> [])] \<rparr>
              in (Inr (getSandbox userId uuid_id s2), s2)))"

text \<open>\<^verbatim>\<open>data.environmentVersionId ?? env.currentVersionId\<close>\<close>

definition resolve_versionId :: "CreateSandboxData \<Rightarrow> EnvironmentResponse \<Rightarrow> uuid option" where
  "resolve_versionId data env =
     (case cs_environmentVersionId data of Some v \<Rightarrow> Some v | None \<Rightarrow> er_currentVersionId env)"

definition createSandbox ::
  "uuid \<Rightarrow> CreateSandboxData \<Rightarrow> string \<Rightarrow> uuid \<Rightarrow> timestamp \<Rightarrow> state
     \<Rightarrow> (error + SandboxResponse option) \<times> state" where
  "createSandbox userId data uuid_suffix uuid_id now s =
     (if active_count userId s \<ge> MAX_SANDBOXES_PER_USER
      then (Inl (QuotaExceededError ''Maximum 10 concurrent sandboxes allowed per user''), s)
      else
        (case getEnvironment userId (cs_environmentId data) s of
           None \<Rightarrow> (Inl (NotFoundError ''Environment not found''), s)
         | Some env \<Rightarrow>
             (let versionId = resolve_versionId data env
              in if \<not> truthy versionId then (Inl (Error ''Environment has no version''), s)
                 else
                   (case getVersion (the versionId) s of
                      None \<Rightarrow> (Inl (NotFoundError ''Environment version not found''), s)
                    | Some version \<Rightarrow>
                        (let sandboxName =
                               (case cs_name data of
                                  Some n \<Rightarrow> n
                                | None \<Rightarrow> er_name env @ ''-'' @ take 8 uuid_suffix)
                         in case queryOne
                                   (\<lambda>r. sb_user_id r = userId \<and>
                                        sb_environment_id r = cs_environmentId data \<and>
                                        sb_name r = sandboxName)
                                   (sandboxes s) of
                              Some existing \<Rightarrow> (Inr (getSandbox userId (sb_id existing) s), s)
                            | None \<Rightarrow>
                                createSandbox_insert userId data (the versionId) version
                                  sandboxName uuid_id now s)))))"


text \<open>
  The lifecycle operations call the container runtime through the runtime module.  The
  answer of the runtime API to a call is an input: \<open>None\<close> when the call succeeds, else
  the status code of the error.  The module functions throw on an error, except that
  stopping treats 304 (already stopped) and removing treats 404 (not found) as success.
  A call is recorded in \<open>docker_calls\<close> whether it fails or not.
\<close>

type_synonym docker_api = "docker_call \<Rightarrow> nat option"

definition startContainer :: "docker_api \<Rightarrow> string \<Rightarrow> nat option" where
  "startContainer api containerId = api (StartContainer containerId)"

definition stopContainer :: "docker_api \<Rightarrow> string \<Rightarrow> nat option" where
  "stopContainer api containerId =
     (case api (StopContainer containerId) of
        None \<Rightarrow> None
      | Some statusCode \<Rightarrow> if statusCode = 304 then None else Some statusCode)"

definition restartContainer :: "docker_api \<Rightarrow> string \<Rightarrow> nat option" where
  "restartContainer api containerId = api (RestartContainer containerId)"

definition removeContainer :: "docker_api \<Rightarrow> string \<Rightarrow> nat option" where
  "removeContainer api containerId =
     (case api (RemoveContainer containerId) of
        None \<Rightarrow> None
      | Some statusCode \<Rightarrow> if statusCode = 404 then None else Some statusCode)"

definition createInteractiveExec :: "docker_api \<Rightarrow> string \<Rightarrow> nat option" where
  "createInteractiveExec api containerId = api (CreateInteractiveExec containerId)"

definition docker_call :: "docker_call \<Rightarrow> state \<Rightarrow> state" where
  "docker_call c s = s\<lparr> docker_calls := docker_calls s @ [c] \<rparr>"

definition update_sandbox :: "uuid \<Rightarrow> (DbSandbox \<Rightarrow> DbSandbox) \<Rightarrow> state \<Rightarrow> state" where
  "update_sandbox sandboxId f s =
     s\<lparr> sandboxes := map (\<lambda>r. if sb_id r = sandboxId then f r else r) (sandboxes s) \<rparr>"

definition spawn :: "task \<Rightarrow> state \<Rightarrow> state" where
  "spawn t s = s\<lparr> tasks := tasks s @ [t] \<rparr>"

definition startSandbox ::
  "uuid \<Rightarrow> uuid \<Rightarrow> timestamp \<Rightarrow> docker_api \<Rightarrow> state
     \<Rightarrow> (error + SandboxResponse option) \<times> state" where
  "startSandbox userId sandboxId now api s =
     (case queryOne (\<lambda>r. sb_id r = sandboxId \<and> sb_user_id r = userId) (sandboxes s) of
        None \<Rightarrow> (Inl (NotFoundError ''Sandbox not found''), s)
      | Some sandbox \<Rightarrow>
          if sb_status sandbox = S_running then (Inr (Some (toResponse sandbox None)), s)
          else if \<not> truthy (sb_container_id sandbox)
          then (Inl (Error ''Sandbox has no container''), s)
          else
            (let cid = the (sb_container_id sandbox);
                 s1 = docker_call (StartContainer cid) s
             in case startContainer api cid of
                  Some statusCode \<Rightarrow> (Inl (DockerError statusCode), s1)
                | None \<Rightarrow>
                  (let s2 = update_sandbox sandboxId
                              (\<lambda>r. r\<lparr> sb_status := S_running, sb_phase := P_healthy,
                                       sb_started_at := Some now, sb_stopped_at := None \<rparr>) s1;
                       s3 = spawn (CollectLogs sandboxId cid) s2
                   in (Inr (getSandbox userId sandboxId s3), s3))))"

definition stopSandbox ::
  "uuid \<Rightarrow> uuid \<Rightarrow> timestamp \<Rightarrow> docker_api \<Rightarrow> state
     \<Rightarrow> (error + SandboxResponse option) \<times> state" where
  "stopSandbox userId sandboxId now api s =
     (case queryOne (\<lambda>r. sb_id r = sandboxId \<and> sb_user_id r = userId) (sandboxes s) of
        None \<Rightarrow> (Inl (NotFoundError ''Sandbox not found''), s)
      | Some sandbox \<Rightarrow>
          if sb_status sandbox = S_stopped then (Inr (Some (toResponse sandbox None)), s)
          else if \<not> truthy (sb_container_id sandbox)
          then (Inl (Error ''Sandbox has no container''), s)
          else
            (let cid = the (sb_container_id sandbox);
                 s1 = docker_call (StopContainer cid) s
             in case stopContainer api cid of
                  Some statusCode \<Rightarrow> (Inl (DockerError statusCode), s1)
                | None \<Rightarrow>
                  (let s2 = update_sandbox sandboxId
                              (\<lambda>r. r\<lparr> sb_status := S_stopped, sb_phase := P_stopped,
                                       sb_stopped_at := Some now \<rparr>) s1
                   in (Inr (getSandbox userId sandboxId s2), s2))))"

definition restartSandbox ::
  "uuid \<Rightarrow> uuid \<Rightarrow> timestamp \<Rightarrow> docker_api \<Rightarrow> state
     \<Rightarrow> (error + SandboxResponse option) \<times> state" where
  "restartSandbox userId sandboxId now api s =
     (case queryOne (\<lambda>r. sb_id r = sandboxId \<and> sb_user_id r = userId) (sandboxes s) of
        None \<Rightarrow> (Inl (NotFoundError ''Sandbox not found''), s)
      | Some sandbox \<Rightarrow>
          if \<not> truthy (sb_container_id sandbox)
          then (Inl (Error ''Sandbox has no container''), s)
          else
            (let cid = the (sb_container_id sandbox);
                 s1 = docker_call (RestartContainer cid) s
             in case restartContainer api cid of
                  Some statusCode \<Rightarrow> (Inl (DockerError statusCode), s1)
                | None \<Rightarrow>
                  (let s2 = update_sandbox sandboxId
                              (\<lambda>r. r\<lparr> sb_status := S_running, sb_phase := P_healthy,
                                       sb_started_at := Some now, sb_stopped_at := None \<rparr>) s1
                   in (Inr (getSandbox userId sandboxId s2), s2))))"

text \<open>Deleting a sandbox row cascades to its log rows.\<close>

definition delete_sandbox :: "uuid \<Rightarrow> state \<Rightarrow> state" where
  "delete_sandbox sandboxId s =
     s\<lparr> sandboxes := filter (\<lambda>r. sb_id r \<noteq> sandboxId) (sandboxes s),
        sandbox_logs := filter (\<lambda>l. log_sandbox_id l \<noteq> sandboxId) (sandbox_logs s) \<rparr>"

definition destroySandbox ::
  "uuid \<Rightarrow> uuid \<Rightarrow> docker_api \<Rightarrow> state \<Rightarrow> (error + bool) \<times> state" where
  "destroySandbox userId sandboxId api s =
     (case queryOne (\<lambda>r. sb_id r = sandboxId \<and> sb_user_id r = userId) (sandboxes s) of
        None \<Rightarrow> (Inr False, s)
      | Some sandbox \<Rightarrow>
          if truthy (sb_container_id sandbox)
          then
            (let cid = the (sb_container_id sandbox);
                 s1 = docker_call (RemoveContainer cid) s
             in case removeContainer api cid of
                  Some statusCode \<Rightarrow> (Inl (DockerError statusCode), s1)
                | None \<Rightarrow> (Inr True, delete_sandbox sandboxId s1))
          else (Inr True, delete_sandbox sandboxId s))"

record LogEntry =
  le_type :: log_type
  le_text :: jsstring
  le_timestamp :: timestamp

definition getLogs :: "uuid \<Rightarrow> uuid \<Rightarrow> nat \<Rightarrow> state \<Rightarrow> error + LogEntry list" where
  "getLogs userId sandboxId tail s =
     (case queryOne (\<lambda>r. sb_id r = sandboxId \<and> sb_user_id r = userId) (sandboxes s) of
        None \<Rightarrow> Inl (NotFoundError ''Sandbox not found'')
      | Some sandbox \<Rightarrow>
          Inr (map (\<lambda>l. \<lparr> le_type = log_type l, le_text = log_text l,
                            le_timestamp = log_timestamp l \<rparr>)
                 (rev (recent_logs sandboxId tail s))))"

section \<open>WebSocket hub\<close>

text \<open>
  The connection handler, from the ownership check on: the path has been parsed into a
  sandbox id and an endpoint, and the token has been resolved to a user id.  The outcome
  is the frames sent to the client and the close code, if the server closes.
\<close>

datatype ws_endpoint = E_logs | E_terminal

datatype ws_frame =
  F_status SandboxStatus
  | F_log log_type jsstring timestamp
  | F_error string
  | F_ready

record ws_outcome =
  ws_sent :: "ws_frame list"
  ws_close :: "(nat \<times> string) option"

definition handleLogStream :: "uuid \<Rightarrow> DbSandbox \<Rightarrow> timestamp \<Rightarrow> state \<Rightarrow> ws_outcome \<times> state" where
  "handleLogStream sandboxId sandbox now s =
     (\<lparr> ws_sent =
          F_status (sb_status sandbox) #
          map (\<lambda>l. F_log (log_type l) (log_text l) (log_timestamp l))
            (rev (recent_logs sandboxId 100 s)),
        ws_close = None \<rparr>,
      if truthy (sb_container_id sandbox) \<and> sb_status sandbox = S_running
      then spawn (StreamContainerLogs sandboxId (the (sb_container_id sandbox)) (now div 1000)) s
      else s)"

definition handleTerminal ::
  "DbSandbox \<Rightarrow> docker_api \<Rightarrow> state \<Rightarrow> ws_outcome \<times> state" where
  "handleTerminal sandbox api s =
     (if sb_status sandbox \<noteq> S_running \<or> \<not> truthy (sb_container_id sandbox)
      then (\<lparr> ws_sent = [F_error ''Sandbox is not running''],
              ws_close = Some (4003, ''Sandbox not running'') \<rparr>, s)
      else
        (let c = CreateInteractiveExec (the (sb_container_id sandbox));
             s1 = docker_call c s
         in case createInteractiveExec api (the (sb_container_id sandbox)) of
              Some statusCode \<Rightarrow>
                (\<lparr> ws_sent = [F_error ''Failed to create terminal session''],
                   ws_close = Some (1011, ''Failed to create session'') \<rparr>, s1)
            | None \<Rightarrow> (\<lparr> ws_sent = [F_ready], ws_close = None \<rparr>, s1)))"

definition ws_connection ::
  "uuid \<Rightarrow> uuid \<Rightarrow> ws_endpoint \<Rightarrow> timestamp \<Rightarrow> docker_api \<Rightarrow> state
     \<Rightarrow> ws_outcome \<times> state" where
  "ws_connection userId sandboxId endpoint now api s =
     (case queryOne (\<lambda>r. sb_id r = sandboxId) (sandboxes s) of
        None \<Rightarrow>
          (\<lparr> ws_sent = [F_error ''Sandbox not found''], ws_close = Some (4004, ''Not found'') \<rparr>, s)
      | Some sandbox \<Rightarrow>
          if sb_user_id sandbox \<noteq> userId
          then (\<lparr> ws_sent = [F_error ''Sandbox not found''],
                  ws_close = Some (4004, ''Not found'') \<rparr>, s)
          else
            (case endpoint of
               E_logs \<Rightarrow> handleLogStream sandboxId sandbox now s
             | E_terminal \<Rightarrow> handleTerminal sandbox api s))"

section \<open>Log ingestion\<close>

text \<open>
  Both the collector of the sandbox service and the tail of a WebSocket log viewer read
  \<^verbatim>\<open>streamLogs\<close> and handle each event in a loop.  The bodies of the two loops
  follow; the event has its time stamp resolved to a date.
\<close>

text \<open>The insert into \<^verbatim>\<open>sandbox_logs\<close>; the foreign key wants the sandbox row to exist.\<close>

definition insert_log :: "DbSandboxLog \<Rightarrow> state \<Rightarrow> error + state" where
  "insert_log row s =
     (if \<exists>r \<in> set (sandboxes s). sb_id r = log_sandbox_id row
      then Inr (s\<lparr> sandbox_logs := sandbox_logs s @ [row] \<rparr>)
      else Inl (DbError ''23503''))"

text \<open>
  \<^verbatim>\<open>DELETE FROM sandbox_logs WHERE sandbox_id = $1 AND id NOT IN (SELECT id ... ORDER BY
  timestamp DESC LIMIT n)\<close>.  A row is identified by its position in the table.
\<close>

definition retain_recent :: "uuid \<Rightarrow> nat \<Rightarrow> state \<Rightarrow> state" where
  "retain_recent sandboxId n s =
     (let logs = sandbox_logs s;
          mine = filter (\<lambda>i. log_sandbox_id (logs ! i) = sandboxId) [0..<length logs];
          keep = take n (rev (sort_key (\<lambda>i. log_timestamp (logs ! i)) mine))
      in s\<lparr> sandbox_logs :=
              map ((!) logs)
                (filter (\<lambda>i. log_sandbox_id (logs ! i) \<noteq> sandboxId \<or> i \<in> set keep)
                   [0..<length logs]) \<rparr>)"

definition collectLogs_event :: "uuid \<Rightarrow> LogEntry \<Rightarrow> state \<Rightarrow> error + state" where
  "collectLogs_event sandboxId log s =
     (case insert_log
             \<lparr> log_sandbox_id = sandboxId, log_type = le_type log,
               log_text = redactSecrets (le_text log), log_timestamp = le_timestamp log \<rparr> s of
        Inl e \<Rightarrow> Inl e
      | Inr s1 \<Rightarrow> Inr (retain_recent sandboxId 10000 s1))"

definition streamContainerLogs_event ::
  "uuid \<Rightarrow> LogEntry \<Rightarrow> state \<Rightarrow> ws_frame \<times> (error + state)" where
  "streamContainerLogs_event sandboxId log s =
     (F_log (le_type log) (redactSecrets (le_text log)) (le_timestamp log),
      insert_log
        \<lparr> log_sandbox_id = sandboxId, log_type = le_type log,
          log_text = redactSecrets (le_text log), log_timestamp = le_timestamp log \<rparr> s)"

text \<open>
  The runtime hands every new log event of a container to each reader that follows the
  container's log.  The readers are the collector and viewer tasks started so far; a task
  whose loop body throws ends and is dropped.
\<close>

definition end_task :: "task \<Rightarrow> state \<Rightarrow> state" where
  "end_task t s = s\<lparr> tasks := remove1 t (tasks s) \<rparr>"

fun deliver_to :: "task list \<Rightarrow> string \<Rightarrow> LogEntry \<Rightarrow> state \<Rightarrow> state \<times> ws_frame list" where
  "deliver_to [] containerId log s = (s, [])"
| "deliver_to (CollectLogs sandboxId cid # ts) containerId log s =
     (if cid = containerId
      then (case collectLogs_event sandboxId log s of
              Inl e \<Rightarrow> deliver_to ts containerId log (end_task (CollectLogs sandboxId cid) s)
            | Inr s' \<Rightarrow> deliver_to ts containerId log s')
      else deliver_to ts containerId log s)"
| "deliver_to (StreamContainerLogs sandboxId cid since # ts) containerId log s =
     (if cid = containerId
      then (case streamContainerLogs_event sandboxId log s of
              (frame, Inl e) \<Rightarrow>
                apsnd ((#) frame)
                  (deliver_to ts containerId log
                     (end_task (StreamContainerLogs sandboxId cid since) s))
            | (frame, Inr s') \<Rightarrow> apsnd ((#) frame) (deliver_to ts containerId log s'))
      else deliver_to ts containerId log s)"
| "deliver_to (ProvisionSandbox sandboxId userId version env # ts) containerId log s =
     deliver_to ts containerId log s"

definition deliver_log_event :: "string \<Rightarrow> LogEntry \<Rightarrow> state \<Rightarrow> state \<times> ws_frame list" where
  "deliver_log_event containerId log s = deliver_to (tasks s) containerId log s"

section \<open>HTTP layer\<close>

text \<open>
  The error handler maps a thrown error to a status and an error code; the routes for
  fetching and destroying a sandbox answer 404 themselves when the service returns null
  or false.
\<close>

definition errorHandler :: "error \<Rightarrow> nat \<times> string" where
  "errorHandler err =
     (case err of
        NotFoundError m \<Rightarrow> (404, ''NOT_FOUND'')
      | QuotaExceededError m \<Rightarrow> (429, ''QUOTA_EXCEEDED'')
      | DbError code \<Rightarrow> (if code = ''23505'' then (409, ''CONFLICT'') else (500, ''INTERNAL_ERROR''))
      | Error m \<Rightarrow> (500, ''INTERNAL_ERROR'')
      | DockerError statusCode \<Rightarrow>
          (if statusCode \<noteq> 0 then (statusCode, ''ERROR'') else (500, ''INTERNAL_ERROR'')))"

definition route_get_sandbox :: "uuid \<Rightarrow> uuid \<Rightarrow> state \<Rightarrow> nat \<times> string" where
  "route_get_sandbox userId sandboxId s =
     (case getSandbox userId sandboxId s of
        None \<Rightarrow> (404, ''NOT_FOUND'')
      | Some sandbox \<Rightarrow> (200, []))"

definition route_delete_sandbox ::
  "uuid \<Rightarrow> uuid \<Rightarrow> docker_api \<Rightarrow> state \<Rightarrow> (nat \<times> string) \<times> state" where
  "route_delete_sandbox userId sandboxId api s =
     (case destroySandbox userId sandboxId api s of
        (Inl err, s') \<Rightarrow> (errorHandler err, s')
      | (Inr destroyed, s') \<Rightarrow> (if destroyed then (200, []) else (404, ''NOT_FOUND''), s'))"

section \<open>Secrets service\<close>

text \<open>
  The service wraps the authenticated cipher \<^verbatim>\<open>nacl.secretbox\<close> of the \<^verbatim>\<open>tweetnacl\<close> package
  and the codecs of \<^verbatim>\<open>tweetnacl-util\<close>.  These library functions are parameters of the
  model; a library function that signals failure (a thrown error, or \<^verbatim>\<open>null\<close> from
  \<^verbatim>\<open>secretbox.open\<close>) returns \<open>None\<close>.  The arguments keep the order of the library:
  message or box, nonce, key.
\<close>

record crypto_lib =
  secretbox :: "byte list \<Rightarrow> byte list \<Rightarrow> byte list \<Rightarrow> byte list"
  secretbox_open :: "byte list \<Rightarrow> byte list \<Rightarrow> byte list \<Rightarrow> byte list option"
  encodeBase64 :: "byte list \<Rightarrow> jsstring"
  decodeBase64 :: "jsstring \<Rightarrow> byte list option"
  decodeUTF8 :: "jsstring \<Rightarrow> byte list"
  encodeUTF8 :: "byte list \<Rightarrow> jsstring option"

definition keyLength :: nat where
  "keyLength = 32"


text \<open>
  \<open>initMasterKey\<close>: \<open>keyBase64\<close> is the environment variable, \<open>production\<close> tells whether
  \<^verbatim>\<open>NODE_ENV\<close> is \<^verbatim>\<open>production\<close>, and \<open>generated\<close> is the answer of
  \<^verbatim>\<open>nacl.randomBytes(nacl.secretbox.keyLength)\<close>.
\<close>

definition initMasterKey ::
  "crypto_lib \<Rightarrow> jsstring option \<Rightarrow> bool \<Rightarrow> byte list \<Rightarrow> error + byte list" where
  "initMasterKey lib keyBase64 production generated =
     (if keyBase64 = None \<or> keyBase64 = Some []
      then (if \<not> production then Inr generated
            else Inl (Error ''SECRETS_MASTER_KEY must be set in production''))
      else
        (case decodeBase64 lib (the keyBase64) of
           None \<Rightarrow>
             Inl (Error ''Invalid SECRETS_MASTER_KEY format. Must be base64 encoded 32 bytes.'')
         | Some masterKey \<Rightarrow>
             if length masterKey \<noteq> keyLength
             then Inl (Error ''Invalid SECRETS_MASTER_KEY format. Must be base64 encoded 32 bytes.'')
             else Inr masterKey))"






section \<open>Example states\<close>

definition ex_environment :: DbEnvironment where
  "ex_environment =
     \<lparr> env_id = ''env-1'', env_user_id = ''alice'', env_name = ''nginx-demo'',
       env_current_version_id = Some ''ver-1'', env_created_at = 1000, env_updated_at = 1000 \<rparr>"

definition ex_version :: DbEnvironmentVersion where
  "ex_version =
     \<lparr> ver_id = ''ver-1'', ver_environment_id = ''env-1'', ver_version = 1,
       ver_image = Some ''nginx:alpine'', ver_dockerfile = None, ver_build_files = [],
       ver_command = None, ver_cpu = 100, ver_memory = 256,
       ver_ports = [\<lparr> container = 80, host = 48080 \<rparr>], ver_env = [],
       ver_secrets = [(''API_KEY'', ''b64-ciphertext'')], ver_mounts = [],
       ver_created_at = 1000 \<rparr>"

definition ex_sandbox :: "nat \<Rightarrow> SandboxStatus \<Rightarrow> DbSandbox" where
  "ex_sandbox i st =
     \<lparr> sb_id = ''sb-'' @ string_of_nat i, sb_user_id = ''alice'',
       sb_environment_id = ''env-1'', sb_environment_version_id = ''ver-1'',
       sb_name = ''box-'' @ string_of_nat i,
       sb_container_id = Some (''c-'' @ string_of_nat i),
       sb_status = st,
       sb_phase =
         (case st of
            S_pending \<Rightarrow> P_starting | S_running \<Rightarrow> P_healthy
          | S_stopped \<Rightarrow> P_stopped | S_error \<Rightarrow> P_failed | S_expired \<Rightarrow> P_stopped),
       sb_ports = [], sb_created_at = 2000,
       sb_started_at = (if st = S_pending then None else Some 2500),
       sb_stopped_at = None, sb_expires_at = None,
       sb_provision_progress = 100, sb_provision_status = ''Image ready'' \<rparr>"

definition ex_state :: "DbSandbox list \<Rightarrow> state" where
  "ex_state rows =
     \<lparr> environments = [ex_environment], environment_versions = [ex_version],
       sandboxes = rows, sandbox_logs = [], docker_calls = [], tasks = [] \<rparr>"

definition ex_create :: "string \<Rightarrow> CreateSandboxData" where
  "ex_create n =
     \<lparr> cs_environmentId = ''env-1'', cs_environmentVersionId = None, cs_name = Some n,
       cs_ttlSeconds = None, cs_overrides_env = None, cs_overrides_ports = None \<rparr>"

definition ex_full_state :: state where
  "ex_full_state = ex_state (map (\<lambda>i. ex_sandbox i S_running) [0..<10])"

definition ex_one_state :: state where
  "ex_one_state = ex_state [ex_sandbox 0 S_running]"

definition no_failure :: docker_api where
  "no_failure c = None"

text \<open>A runtime that answers every call with status 500, and one that answers 304.\<close>

definition server_error :: docker_api where
  "server_error c = Some 500"

definition not_modified :: docker_api where
  "not_modified c = Some 304"

text \<open>A sandbox whose provisioning failed before a container was created.\<close>

definition ex_detached :: DbSandbox where
  "ex_detached = (ex_sandbox 0 S_error)\<lparr> sb_container_id := None \<rparr>"

definition ex_db ::
  "DbEnvironment list \<Rightarrow> DbEnvironmentVersion list \<Rightarrow> DbSandbox list \<Rightarrow> state" where
  "ex_db envs vers rows =
     \<lparr> environments = envs, environment_versions = vers,
       sandboxes = rows, sandbox_logs = [], docker_calls = [], tasks = [] \<rparr>"

definition ex_unversioned :: DbEnvironment where
  "ex_unversioned = ex_environment\<lparr> env_current_version_id := None \<rparr>"

definition ex_create_at :: "string \<Rightarrow> uuid \<Rightarrow> CreateSandboxData" where
  "ex_create_at n v = (ex_create n)\<lparr> cs_environmentVersionId := Some v \<rparr>"

definition empty_state :: state where
  "empty_state =
     \<lparr> environments = [], environment_versions = [], sandboxes = [], sandbox_logs = [],
       docker_calls = [], tasks = [] \<rparr>"

definition ex_create_env :: "string option \<Rightarrow> string option \<Rightarrow> CreateEnvironmentData" where
  "ex_create_env img df =
     \<lparr> ce_name = ''demo'', ce_image = img, ce_dockerfile = df,
       ce_buildFiles = Some [(''run.sh'', ''echo hello'')], ce_cpu = Some 100,
       ce_memory = Some 256, ce_ports = None, ce_env = None, ce_mounts = None \<rparr>"

definition ex_patch :: UpdateEnvironmentData where
  "ex_patch =
     \<lparr> ue_image = None, ue_cpu = Some 200, ue_memory = None, ue_ports = None,
       ue_env = None, ue_mounts = None \<rparr>"

definition ex_built_state :: state where
  "ex_built_state =
     snd (createEnvironment ''alice'' (ex_create_env None (Some ''FROM alpine''))
            ''env-1'' ''ver-1'' 1000 empty_state)"




text \<open>
  Example: the stopped sandbox is started (the collector starts), then its owner opens the
  log WebSocket (a viewer tail starts).
\<close>

definition ex_started_state :: state where
  "ex_started_state =
     snd (startSandbox ''alice'' ''sb-0'' 9000 no_failure (ex_state [ex_sandbox 0 S_stopped]))"

definition ex_viewed_state :: state where
  "ex_viewed_state =
     snd (ws_connection ''alice'' ''sb-0'' E_logs 9100 no_failure ex_started_state)"

definition ex_log :: LogEntry where
  "ex_log = \<lparr> le_type = stdout, le_text = js ''hello'', le_timestamp = 9500 \<rparr>"














section \<open>Quota and idempotency of sandbox creation\<close>

lemma queryOne_None: "queryOne p rows = None \<longleftrightarrow> (\<forall>r \<in> set rows. \<not> p r)"
proof -
  have "queryOne p rows = None \<longleftrightarrow> filter p rows = []"
    by (simp add: queryOne_def split: list.splits)
  then show ?thesis by (simp add: filter_empty_conv)
qed

lemma queryOne_Some: "queryOne p rows = Some r \<Longrightarrow> r \<in> set rows \<and> p r"
proof -
  assume "queryOne p rows = Some r"
  then obtain rest where "filter p rows = r # rest"
    by (auto simp: queryOne_def split: list.splits)
  then have "r \<in> set (filter p rows)" by simp
  then show ?thesis by simp
qed

lemma string_of_nat_digit: "n < 10 \<Longrightarrow> string_of_nat n = [''0123456789'' ! n]"
  by (simp add: string_of_nat_def)

text \<open>C5: a user who owns ten or more sandboxes outside the states stopped, expired and
  error gets \<open>QuotaExceededError\<close> from \<open>createSandbox\<close>, and the state after the call
  (sandbox rows, runtime calls, background tasks) is the state before it.\<close>

theorem createSandbox_quota:
  assumes "10 \<le> active_count userId s"
  shows "createSandbox userId data uuid_suffix uuid_id now s =
           (Inl (QuotaExceededError ''Maximum 10 concurrent sandboxes allowed per user''), s)"
  using assms by (simp add: createSandbox_def MAX_SANDBOXES_PER_USER_def)

lemma ex_active_count:
  "active_count ''alice'' ex_full_state = 10"
  by (simp add: ex_full_state_def active_count_def ex_state_def ex_sandbox_def active_status_def)

theorem createSandbox_quota_witness:
  "10 \<le> active_count ''alice'' ex_full_state \<and>
   createSandbox ''alice'' (ex_create ''box-11'') ''0a1b2c3d-0000'' ''sb-new'' 5000
       ex_full_state =
     (Inl (QuotaExceededError ''Maximum 10 concurrent sandboxes allowed per user''),
      ex_full_state)"
  using createSandbox_quota [of "''alice''"
      "ex_full_state" "ex_create ''box-11''"
      "''0a1b2c3d-0000''" "''sb-new''" 5000]
  by (simp add: ex_active_count)

lemma unique_key_row:
  assumes "distinct (map f rows)" and "r \<in> set rows" and "r' \<in> set rows" and "f r' = f r"
  shows "r' = r"
  using assms by (meson distinct_map inj_on_def)

lemma queryOne_unique:
  assumes "distinct (map f rows)" and "r \<in> set rows" and "p r"
    and "\<And>r'. p r' \<Longrightarrow> f r' = f r"
  shows "queryOne p rows = Some r"
proof (cases "queryOne p rows")
  case None
  with assms(2,3) show ?thesis by (simp add: queryOne_None)
next
  case (Some r')
  then have "r' \<in> set rows" and "p r'" by (auto dest: queryOne_Some)
  with assms have "r' = r" by (metis unique_key_row)
  with Some show ?thesis by simp
qed

text \<open>C1 (amended): when a sandbox with the key (user, environment, name) exists,
  \<open>createSandbox\<close> with that key never changes the state: no row is inserted and no
  provisioner is started.  Its result does not depend on the random ids or the clock, so
  repeated calls give the same result.  It returns the existing sandbox whenever the checks
  that precede the idempotency lookup pass: the user is below the quota, the environment is
  found and a version is resolved.  Otherwise it fails: with \<open>QuotaExceededError\<close> at the
  quota, else with \<open>NotFoundError\<close> when the environment is not found, else with the
  no-version error when no version id is resolved, else with \<open>NotFoundError\<close> when the
  version is not found.\<close>

theorem createSandbox_idempotent:
  assumes uniq_key:
      "distinct (map (\<lambda>r. (sb_user_id r, sb_environment_id r, sb_name r)) (sandboxes s))"
    and uniq_id: "distinct (map sb_id (sandboxes s))"
    and row: "r \<in> set (sandboxes s)"
    and key: "sb_user_id r = U" "sb_environment_id r = cs_environmentId data"
      "cs_name data = Some (sb_name r)"
  shows "snd (createSandbox U data u1 u2 now s) = s \<and>
         createSandbox U data u1' u2' now' s = createSandbox U data u1 u2 now s \<and>
         (active_count U s < 10 \<and> getEnvironment U (cs_environmentId data) s = Some env \<and>
          truthy (resolve_versionId data env) \<and>
          getVersion (the (resolve_versionId data env)) s = Some version
          \<longrightarrow> (\<exists>preview. fst (createSandbox U data u1 u2 now s) =
                  Inr (Some (toResponse r (Some preview))))) \<and>
         (10 \<le> active_count U s
          \<longrightarrow> fst (createSandbox U data u1 u2 now s) =
                Inl (QuotaExceededError ''Maximum 10 concurrent sandboxes allowed per user'')) \<and>
         (active_count U s < 10 \<and> getEnvironment U (cs_environmentId data) s = None
          \<longrightarrow> fst (createSandbox U data u1 u2 now s) =
                Inl (NotFoundError ''Environment not found'')) \<and>
         (active_count U s < 10 \<and> getEnvironment U (cs_environmentId data) s = Some env \<and>
          \<not> truthy (resolve_versionId data env)
          \<longrightarrow> fst (createSandbox U data u1 u2 now s) =
                Inl (Error ''Environment has no version'')) \<and>
         (active_count U s < 10 \<and> getEnvironment U (cs_environmentId data) s = Some env \<and>
          truthy (resolve_versionId data env) \<and>
          getVersion (the (resolve_versionId data env)) s = None
          \<longrightarrow> fst (createSandbox U data u1 u2 now s) =
                Inl (NotFoundError ''Environment version not found''))"
proof -
  have found: "queryOne (\<lambda>x. sb_user_id x = U \<and> sb_environment_id x = cs_environmentId data \<and>
                  sb_name x = sb_name r) (sandboxes s) = Some r"
    using uniq_key row key(1,2)
    by (intro queryOne_unique
          [where f = "\<lambda>r. (sb_user_id r, sb_environment_id r, sb_name r)"]) auto
  have by_id: "queryOne (\<lambda>x. sb_id x = sb_id r \<and> sb_user_id x = U) (sandboxes s) = Some r"
    using uniq_id row key(1) by (intro queryOne_unique [where f = sb_id]) auto
  have shape: "createSandbox U data a b c s =
      (if active_count U s \<ge> 10
       then (Inl (QuotaExceededError ''Maximum 10 concurrent sandboxes allowed per user''), s)
       else (case getEnvironment U (cs_environmentId data) s of
              None \<Rightarrow> (Inl (NotFoundError ''Environment not found''), s)
            | Some env \<Rightarrow>
                (if \<not> truthy (resolve_versionId data env)
                 then (Inl (Error ''Environment has no version''), s)
                 else (case getVersion (the (resolve_versionId data env)) s of
                         None \<Rightarrow> (Inl (NotFoundError ''Environment version not found''), s)
                       | Some version \<Rightarrow> (Inr (getSandbox U (sb_id r) s), s)))))" for a b c
    by (simp add: createSandbox_def MAX_SANDBOXES_PER_USER_def Let_def key(3) found
             split: option.splits)
  have unchanged: "snd (createSandbox U data u1 u2 now s) = s"
    by (simp add: shape split: option.splits)
  have same: "createSandbox U data u1' u2' now' s = createSandbox U data u1 u2 now s"
    by (simp only: shape)
  have returned: "\<exists>preview. fst (createSandbox U data u1 u2 now s) =
                    Inr (Some (toResponse r (Some preview)))"
    if "active_count U s < 10" "getEnvironment U (cs_environmentId data) s = Some env"
       "truthy (resolve_versionId data env)"
       "getVersion (the (resolve_versionId data env)) s = Some version"
    using that by (auto simp: shape getSandbox_def by_id)
  have quota: "fst (createSandbox U data u1 u2 now s) =
                 Inl (QuotaExceededError ''Maximum 10 concurrent sandboxes allowed per user'')"
    if "10 \<le> active_count U s"
    using that by (simp add: shape)
  have no_environment: "fst (createSandbox U data u1 u2 now s) =
                 Inl (NotFoundError ''Environment not found'')"
    if "active_count U s < 10" "getEnvironment U (cs_environmentId data) s = None"
    using that by (simp add: shape)
  have no_version_id: "fst (createSandbox U data u1 u2 now s) =
                 Inl (Error ''Environment has no version'')"
    if "active_count U s < 10" "getEnvironment U (cs_environmentId data) s = Some env"
       "\<not> truthy (resolve_versionId data env)"
    using that by (simp add: shape)
  have no_version: "fst (createSandbox U data u1 u2 now s) =
                 Inl (NotFoundError ''Environment version not found'')"
    if "active_count U s < 10" "getEnvironment U (cs_environmentId data) s = Some env"
       "truthy (resolve_versionId data env)"
       "getVersion (the (resolve_versionId data env)) s = None"
    using that by (simp add: shape)
  from unchanged same returned quota no_environment no_version_id no_version
  show ?thesis by blast
qed

lemma ex_one_rows: "sandboxes ex_one_state = [ex_sandbox 0 S_running]"
  by (simp add: ex_one_state_def ex_state_def)

lemma ex_sandbox_0:
  "sb_id (ex_sandbox 0 st) = ''sb-0''" "sb_name (ex_sandbox 0 st) = ''box-0''"
  "sb_user_id (ex_sandbox i st) = ''alice''" "sb_environment_id (ex_sandbox i st) = ''env-1''"
  "sb_status (ex_sandbox i st) = st"
  "sb_container_id (ex_sandbox 0 st) = Some ''c-0''"
  by (simp_all add: ex_sandbox_def string_of_nat_digit)

lemma ex_one_environment:
  "getEnvironment ''alice'' ''env-1'' ex_one_state =
     Some (toResponse_env ex_environment (Some (mapVersion ex_version)))"
  by (simp add: getEnvironment_def ex_one_state_def ex_state_def queryOne_def
        ex_environment_def ex_version_def truthy_def)

lemma ex_one_version:
  "getVersion ''ver-1'' ex_one_state = Some (mapVersion (select_without_build ex_version))"
  by (simp add: getVersion_def ex_one_state_def ex_state_def queryOne_def ex_version_def)

lemma ex_resolve:
  "resolve_versionId (ex_create n) (toResponse_env ex_environment v) = Some ''ver-1''"
  by (simp add: resolve_versionId_def ex_create_def toResponse_env_def ex_environment_def)

lemma ex_full_rows:
  "sandboxes ex_full_state =
     [ex_sandbox 0 S_running, ex_sandbox 1 S_running, ex_sandbox 2 S_running,
      ex_sandbox 3 S_running, ex_sandbox 4 S_running, ex_sandbox 5 S_running,
      ex_sandbox 6 S_running, ex_sandbox 7 S_running, ex_sandbox 8 S_running,
      ex_sandbox 9 S_running]"
  by (simp add: ex_full_state_def ex_state_def upt_conv_Cons eval_nat_numeral)

lemma ex_sandbox_names:
  "i < 10 \<Longrightarrow> sb_id (ex_sandbox i st) = ''sb-'' @ [''0123456789'' ! i]"
  "i < 10 \<Longrightarrow> sb_name (ex_sandbox i st) = ''box-'' @ [''0123456789'' ! i]"
  by (simp_all add: ex_sandbox_def string_of_nat_digit)

theorem createSandbox_idempotent_witness:
  "ex_sandbox 0 S_running \<in> set (sandboxes ex_one_state) \<and>
   active_count ''alice'' ex_one_state < 10 \<and>
   snd (createSandbox ''alice'' (ex_create ''box-0'') ''0a1b2c3d-0000'' ''sb-new'' 5000
          ex_one_state) = ex_one_state \<and>
   (case fst (createSandbox ''alice'' (ex_create ''box-0'') ''0a1b2c3d-0000'' ''sb-new'' 5000
                ex_one_state) of
      Inr (Some resp) \<Rightarrow> sr_id resp = ''sb-0'' \<and> sr_name resp = ''box-0''
    | _ \<Rightarrow> False) \<and>
   ex_sandbox 0 S_running \<in> set (sandboxes ex_full_state) \<and>
   10 \<le> active_count ''alice'' ex_full_state \<and>
   createSandbox ''alice'' (ex_create ''box-0'') ''0a1b2c3d-0000'' ''sb-new'' 5000 ex_full_state =
     (Inl (QuotaExceededError ''Maximum 10 concurrent sandboxes allowed per user''),
      ex_full_state) \<and>
   getEnvironment ''alice'' ''env-1'' (ex_db [] [] [ex_sandbox 0 S_running]) = None \<and>
   createSandbox ''alice'' (ex_create ''box-0'') ''0a1b2c3d-0000'' ''sb-new'' 5000
       (ex_db [] [] [ex_sandbox 0 S_running]) =
     (Inl (NotFoundError ''Environment not found''), ex_db [] [] [ex_sandbox 0 S_running]) \<and>
   createSandbox ''alice'' (ex_create ''box-0'') ''0a1b2c3d-0000'' ''sb-new'' 5000
       (ex_db [ex_unversioned] [ex_version] [ex_sandbox 0 S_running]) =
     (Inl (Error ''Environment has no version''),
      ex_db [ex_unversioned] [ex_version] [ex_sandbox 0 S_running]) \<and>
   getVersion ''ver-9'' ex_one_state = None \<and>
   createSandbox ''alice'' (ex_create_at ''box-0'' ''ver-9'') ''0a1b2c3d-0000'' ''sb-new'' 5000
       ex_one_state =
     (Inl (NotFoundError ''Environment version not found''), ex_one_state)"
proof -
  let ?r = "ex_sandbox 0 S_running"
  have one: "distinct (map (\<lambda>r. (sb_user_id r, sb_environment_id r, sb_name r))
               (sandboxes ex_one_state))"
       "distinct (map sb_id (sandboxes ex_one_state))"
       "?r \<in> set (sandboxes ex_one_state)"
    by (simp_all add: ex_one_rows)
  have full: "distinct (map (\<lambda>r. (sb_user_id r, sb_environment_id r, sb_name r))
               (sandboxes ex_full_state))"
       "distinct (map sb_id (sandboxes ex_full_state))"
       "?r \<in> set (sandboxes ex_full_state)"
    by (simp_all add: ex_full_rows ex_sandbox_names)
  have db: "distinct (map (\<lambda>r. (sb_user_id r, sb_environment_id r, sb_name r))
               (sandboxes (ex_db envs vers [?r])))"
       "distinct (map sb_id (sandboxes (ex_db envs vers [?r])))"
       "?r \<in> set (sandboxes (ex_db envs vers [?r]))" for envs vers
    by (simp_all add: ex_db_def)
  have k: "sb_user_id ?r = ''alice''"
       "sb_environment_id ?r = cs_environmentId (ex_create ''box-0'')"
       "cs_name (ex_create ''box-0'') = Some (sb_name ?r)"
       "sb_environment_id ?r = cs_environmentId (ex_create_at ''box-0'' ''ver-9'')"
       "cs_name (ex_create_at ''box-0'' ''ver-9'') = Some (sb_name ?r)"
    by (simp_all add: ex_sandbox_0 ex_create_def ex_create_at_def)
  have below: "active_count ''alice'' ex_one_state < 10"
    by (simp add: active_count_def ex_one_rows)
  have below_db: "active_count ''alice'' (ex_db envs vers [?r]) < 10" for envs vers
    by (simp add: active_count_def ex_db_def)
  have env: "getEnvironment ''alice'' (cs_environmentId (ex_create ''box-0'')) ex_one_state =
               Some (toResponse_env ex_environment (Some (mapVersion ex_version)))"
       "getEnvironment ''alice'' (cs_environmentId (ex_create_at ''box-0'' ''ver-9''))
            ex_one_state =
               Some (toResponse_env ex_environment (Some (mapVersion ex_version)))"
    by (simp_all add: ex_create_def ex_create_at_def ex_one_environment)
  have no_env: "getEnvironment ''alice'' ''env-1'' (ex_db [] [] [?r]) = None"
    by (simp add: getEnvironment_def ex_db_def queryOne_def)
  have unversioned:
    "getEnvironment ''alice'' ''env-1'' (ex_db [ex_unversioned] [ex_version] [?r]) =
       Some (toResponse_env ex_unversioned None)"
    by (simp add: getEnvironment_def ex_db_def queryOne_def ex_unversioned_def
          ex_environment_def truthy_def)
  have unresolved:
    "\<not> truthy (resolve_versionId (ex_create ''box-0'') (toResponse_env ex_unversioned None))"
    by (simp add: resolve_versionId_def ex_create_def toResponse_env_def ex_unversioned_def
          ex_environment_def truthy_def)
  have resolved_other:
    "resolve_versionId (ex_create_at ''box-0'' ''ver-9'') e = Some ''ver-9''" for e
    by (simp add: resolve_versionId_def ex_create_at_def)
  have no_ver: "getVersion ''ver-9'' ex_one_state = None"
    by (simp add: getVersion_def ex_one_state_def ex_state_def queryOne_def ex_version_def)
  note inst = createSandbox_idempotent [OF one k(1,2,3),
      of "''0a1b2c3d-0000''" "''sb-new''" 5000 "''0a1b2c3d-0000''" "''sb-new''" 5000
         "toResponse_env ex_environment (Some (mapVersion ex_version))"
         "mapVersion (select_without_build ex_version)"]
  from inst have unchanged:
    "snd (createSandbox ''alice'' (ex_create ''box-0'') ''0a1b2c3d-0000'' ''sb-new'' 5000
            ex_one_state) = ex_one_state"
    by simp
  from inst below env(1) obtain p where
    "fst (createSandbox ''alice'' (ex_create ''box-0'') ''0a1b2c3d-0000'' ''sb-new'' 5000
            ex_one_state) = Inr (Some (toResponse (ex_sandbox 0 S_running) (Some p)))"
    by (auto simp: ex_resolve truthy_def ex_one_version)
  then have returned:
    "(case fst (createSandbox ''alice'' (ex_create ''box-0'') ''0a1b2c3d-0000'' ''sb-new'' 5000
                  ex_one_state) of
        Inr (Some resp) \<Rightarrow> sr_id resp = ''sb-0'' \<and> sr_name resp = ''box-0''
      | _ \<Rightarrow> False)"
    by (simp add: toResponse_def ex_sandbox_0)
  have at_quota:
    "createSandbox ''alice'' (ex_create ''box-0'') ''0a1b2c3d-0000'' ''sb-new'' 5000
        ex_full_state =
       (Inl (QuotaExceededError ''Maximum 10 concurrent sandboxes allowed per user''),
        ex_full_state)"
    using createSandbox_idempotent [OF full k(1,2,3),
        of "''0a1b2c3d-0000''" "''sb-new''" 5000 "''0a1b2c3d-0000''" "''sb-new''" 5000]
    by (simp add: ex_active_count prod_eq_iff)
  have environment_missing:
    "createSandbox ''alice'' (ex_create ''box-0'') ''0a1b2c3d-0000'' ''sb-new'' 5000
        (ex_db [] [] [?r]) =
       (Inl (NotFoundError ''Environment not found''), ex_db [] [] [?r])"
    using createSandbox_idempotent [OF db [of "[]" "[]"] k(1,2,3),
        of "''0a1b2c3d-0000''" "''sb-new''" 5000 "''0a1b2c3d-0000''" "''sb-new''" 5000]
      below_db [of "[]" "[]"] no_env
    by (simp add: prod_eq_iff ex_create_def)
  have version_unset:
    "createSandbox ''alice'' (ex_create ''box-0'') ''0a1b2c3d-0000'' ''sb-new'' 5000
        (ex_db [ex_unversioned] [ex_version] [?r]) =
       (Inl (Error ''Environment has no version''), ex_db [ex_unversioned] [ex_version] [?r])"
    using createSandbox_idempotent [OF db [of "[ex_unversioned]" "[ex_version]"] k(1,2,3),
        of "''0a1b2c3d-0000''" "''sb-new''" 5000 "''0a1b2c3d-0000''" "''sb-new''" 5000
           "toResponse_env ex_unversioned None"]
      below_db [of "[ex_unversioned]" "[ex_version]"] unversioned unresolved
    by (simp add: prod_eq_iff ex_create_def)
  have version_missing:
    "createSandbox ''alice'' (ex_create_at ''box-0'' ''ver-9'') ''0a1b2c3d-0000'' ''sb-new'' 5000
        ex_one_state =
       (Inl (NotFoundError ''Environment version not found''), ex_one_state)"
    using createSandbox_idempotent [OF one k(1,4,5),
        of "''0a1b2c3d-0000''" "''sb-new''" 5000 "''0a1b2c3d-0000''" "''sb-new''" 5000
           "toResponse_env ex_environment (Some (mapVersion ex_version))"]
      below env(2) no_ver
    by (simp add: prod_eq_iff resolved_other truthy_def)
  from one(3) below unchanged returned full(3) at_quota no_env environment_missing
       version_unset no_ver version_missing
  show ?thesis by (simp add: ex_active_count)
qed

text \<open>C1 as stated fails: the quota check precedes the idempotency lookup, so a user with
  ten running sandboxes who creates one of them again gets \<open>QuotaExceededError\<close>, not the
  existing sandbox.\<close>

theorem createSandbox_existing_counterexample:
  "ex_sandbox 0 S_running \<in> set (sandboxes ex_full_state) \<and>
   sb_user_id (ex_sandbox 0 S_running) = ''alice'' \<and>
   sb_environment_id (ex_sandbox 0 S_running) = cs_environmentId (ex_create ''box-0'') \<and>
   cs_name (ex_create ''box-0'') = Some (sb_name (ex_sandbox 0 S_running)) \<and>
   fst (createSandbox ''alice'' (ex_create ''box-0'') ''0a1b2c3d-0000'' ''sb-new'' 5000
          ex_full_state) =
     Inl (QuotaExceededError ''Maximum 10 concurrent sandboxes allowed per user'')"
  by (simp add: ex_sandbox_0 ex_create_def createSandbox_def MAX_SANDBOXES_PER_USER_def
        ex_active_count)
     (simp add: ex_full_state_def ex_state_def upt_conv_Cons)

section \<open>Lifecycle operations on a sandbox in another state\<close>

text \<open>C3 (amended): \<open>startSandbox\<close> on a running sandbox and \<open>stopSandbox\<close> on a stopped
  sandbox return the current row and leave the state as it is: no runtime call, no change
  of any row, no background task.  No other status is guarded, and \<open>restartSandbox\<close> has no
  status guard.  Outside its guard an operation on a sandbox without a container reference
  fails with its error and leaves the state as it is.  With a container reference it calls
  the runtime.  When that call fails the operation fails with the error of the runtime; the
  call has been made and no row is rewritten.  When it succeeds the row is rewritten to
  running (start, restart) or stopped (stop), \<open>startSandbox\<close> starts the log collector, and
  the result is the sandbox read back.\<close>

theorem lifecycle_target_state_noop:
  assumes "queryOne (\<lambda>r. sb_id r = sandboxId \<and> sb_user_id r = userId) (sandboxes s) = Some row"
  shows "(sb_status row = S_running \<longrightarrow>
            startSandbox userId sandboxId now api s = (Inr (Some (toResponse row None)), s)) \<and>
         (sb_status row = S_stopped \<longrightarrow>
            stopSandbox userId sandboxId now api s = (Inr (Some (toResponse row None)), s)) \<and>
         (sb_status row \<noteq> S_running \<and> \<not> truthy (sb_container_id row) \<longrightarrow>
            startSandbox userId sandboxId now api s =
              (Inl (Error ''Sandbox has no container''), s)) \<and>
         (sb_status row \<noteq> S_stopped \<and> \<not> truthy (sb_container_id row) \<longrightarrow>
            stopSandbox userId sandboxId now api s =
              (Inl (Error ''Sandbox has no container''), s)) \<and>
         (\<not> truthy (sb_container_id row) \<longrightarrow>
            restartSandbox userId sandboxId now api s =
              (Inl (Error ''Sandbox has no container''), s)) \<and>
         (sb_status row \<noteq> S_running \<and> sb_container_id row = Some cid \<and> cid \<noteq> [] \<and>
          startContainer api cid = Some code \<longrightarrow>
            startSandbox userId sandboxId now api s =
              (Inl (DockerError code),
               s\<lparr> docker_calls := docker_calls s @ [StartContainer cid] \<rparr>)) \<and>
         (sb_status row \<noteq> S_stopped \<and> sb_container_id row = Some cid \<and> cid \<noteq> [] \<and>
          stopContainer api cid = Some code \<longrightarrow>
            stopSandbox userId sandboxId now api s =
              (Inl (DockerError code),
               s\<lparr> docker_calls := docker_calls s @ [StopContainer cid] \<rparr>)) \<and>
         (sb_container_id row = Some cid \<and> cid \<noteq> [] \<and>
          restartContainer api cid = Some code \<longrightarrow>
            restartSandbox userId sandboxId now api s =
              (Inl (DockerError code),
               s\<lparr> docker_calls := docker_calls s @ [RestartContainer cid] \<rparr>)) \<and>
         (sb_status row \<noteq> S_running \<and> sb_container_id row = Some cid \<and> cid \<noteq> [] \<and>
          startContainer api cid = None \<longrightarrow>
            (let s' = s\<lparr> docker_calls := docker_calls s @ [StartContainer cid],
                          sandboxes :=
                            map (\<lambda>r. if sb_id r = sandboxId
                                      then r\<lparr> sb_status := S_running, sb_phase := P_healthy,
                                              sb_started_at := Some now, sb_stopped_at := None \<rparr>
                                      else r) (sandboxes s),
                          tasks := tasks s @ [CollectLogs sandboxId cid] \<rparr>
             in startSandbox userId sandboxId now api s =
                  (Inr (getSandbox userId sandboxId s'), s'))) \<and>
         (sb_status row \<noteq> S_stopped \<and> sb_container_id row = Some cid \<and> cid \<noteq> [] \<and>
          stopContainer api cid = None \<longrightarrow>
            (let s' = s\<lparr> docker_calls := docker_calls s @ [StopContainer cid],
                          sandboxes :=
                            map (\<lambda>r. if sb_id r = sandboxId
                                      then r\<lparr> sb_status := S_stopped, sb_phase := P_stopped,
                                              sb_stopped_at := Some now \<rparr>
                                      else r) (sandboxes s) \<rparr>
             in stopSandbox userId sandboxId now api s =
                  (Inr (getSandbox userId sandboxId s'), s'))) \<and>
         (sb_container_id row = Some cid \<and> cid \<noteq> [] \<and>
          restartContainer api cid = None \<longrightarrow>
            (let s' = s\<lparr> docker_calls := docker_calls s @ [RestartContainer cid],
                          sandboxes :=
                            map (\<lambda>r. if sb_id r = sandboxId
                                      then r\<lparr> sb_status := S_running, sb_phase := P_healthy,
                                              sb_started_at := Some now, sb_stopped_at := None \<rparr>
                                      else r) (sandboxes s) \<rparr>
             in restartSandbox userId sandboxId now api s =
                  (Inr (getSandbox userId sandboxId s'), s')))"
proof -
  note defs = startSandbox_def stopSandbox_def restartSandbox_def assms truthy_def Let_def
    docker_call_def update_sandbox_def spawn_def
  have target: "sb_status row = S_running \<Longrightarrow>
        startSandbox userId sandboxId now api s = (Inr (Some (toResponse row None)), s)"
      "sb_status row = S_stopped \<Longrightarrow>
        stopSandbox userId sandboxId now api s = (Inr (Some (toResponse row None)), s)"
    by (simp_all add: defs)
  have detached: "sb_status row \<noteq> S_running \<Longrightarrow> \<not> truthy (sb_container_id row) \<Longrightarrow>
        startSandbox userId sandboxId now api s = (Inl (Error ''Sandbox has no container''), s)"
      "sb_status row \<noteq> S_stopped \<Longrightarrow> \<not> truthy (sb_container_id row) \<Longrightarrow>
        stopSandbox userId sandboxId now api s = (Inl (Error ''Sandbox has no container''), s)"
      "\<not> truthy (sb_container_id row) \<Longrightarrow>
        restartSandbox userId sandboxId now api s = (Inl (Error ''Sandbox has no container''), s)"
    by (simp_all add: startSandbox_def stopSandbox_def restartSandbox_def assms)
  have failed: "sb_status row \<noteq> S_running \<Longrightarrow> sb_container_id row = Some cid \<Longrightarrow> cid \<noteq> [] \<Longrightarrow>
        startContainer api cid = Some code \<Longrightarrow>
        startSandbox userId sandboxId now api s =
          (Inl (DockerError code), s\<lparr> docker_calls := docker_calls s @ [StartContainer cid] \<rparr>)"
      "sb_status row \<noteq> S_stopped \<Longrightarrow> sb_container_id row = Some cid \<Longrightarrow> cid \<noteq> [] \<Longrightarrow>
        stopContainer api cid = Some code \<Longrightarrow>
        stopSandbox userId sandboxId now api s =
          (Inl (DockerError code), s\<lparr> docker_calls := docker_calls s @ [StopContainer cid] \<rparr>)"
      "sb_container_id row = Some cid \<Longrightarrow> cid \<noteq> [] \<Longrightarrow>
        restartContainer api cid = Some code \<Longrightarrow>
        restartSandbox userId sandboxId now api s =
          (Inl (DockerError code), s\<lparr> docker_calls := docker_calls s @ [RestartContainer cid] \<rparr>)"
    by (simp_all add: defs)
  have started: "sb_status row \<noteq> S_running \<Longrightarrow> sb_container_id row = Some cid \<Longrightarrow> cid \<noteq> [] \<Longrightarrow>
        startContainer api cid = None \<Longrightarrow>
        (let s' = s\<lparr> docker_calls := docker_calls s @ [StartContainer cid],
                      sandboxes :=
                        map (\<lambda>r. if sb_id r = sandboxId
                                  then r\<lparr> sb_status := S_running, sb_phase := P_healthy,
                                          sb_started_at := Some now, sb_stopped_at := None \<rparr>
                                  else r) (sandboxes s),
                      tasks := tasks s @ [CollectLogs sandboxId cid] \<rparr>
         in startSandbox userId sandboxId now api s = (Inr (getSandbox userId sandboxId s'), s'))"
    by (simp add: defs)
  have stopped: "sb_status row \<noteq> S_stopped \<Longrightarrow> sb_container_id row = Some cid \<Longrightarrow> cid \<noteq> [] \<Longrightarrow>
        stopContainer api cid = None \<Longrightarrow>
        (let s' = s\<lparr> docker_calls := docker_calls s @ [StopContainer cid],
                      sandboxes :=
                        map (\<lambda>r. if sb_id r = sandboxId
                                  then r\<lparr> sb_status := S_stopped, sb_phase := P_stopped,
                                          sb_stopped_at := Some now \<rparr>
                                  else r) (sandboxes s) \<rparr>
         in stopSandbox userId sandboxId now api s = (Inr (getSandbox userId sandboxId s'), s'))"
    by (simp add: defs)
  have restarted: "sb_container_id row = Some cid \<Longrightarrow> cid \<noteq> [] \<Longrightarrow>
        restartContainer api cid = None \<Longrightarrow>
        (let s' = s\<lparr> docker_calls := docker_calls s @ [RestartContainer cid],
                      sandboxes :=
                        map (\<lambda>r. if sb_id r = sandboxId
                                  then r\<lparr> sb_status := S_running, sb_phase := P_healthy,
                                          sb_started_at := Some now, sb_stopped_at := None \<rparr>
                                  else r) (sandboxes s) \<rparr>
         in restartSandbox userId sandboxId now api s = (Inr (getSandbox userId sandboxId s'), s'))"
    by (simp add: defs)
  from target detached failed started stopped restarted show ?thesis by blast
qed

lemma ex_one_query:
  "queryOne (\<lambda>r. sb_id r = ''sb-0'' \<and> sb_user_id r = ''alice'') [ex_sandbox 0 st] =
     Some (ex_sandbox 0 st)"
  by (simp add: queryOne_def ex_sandbox_0)

lemma ex_detached_query:
  "queryOne (\<lambda>r. sb_id r = ''sb-0'' \<and> sb_user_id r = ''alice'') [ex_detached] =
     Some ex_detached"
  by (simp add: queryOne_def ex_detached_def ex_sandbox_0)

theorem lifecycle_target_state_noop_witness:
  "startSandbox ''alice'' ''sb-0'' 9000 no_failure (ex_state [ex_sandbox 0 S_running]) =
     (Inr (Some (toResponse (ex_sandbox 0 S_running) None)), ex_state [ex_sandbox 0 S_running]) \<and>
   stopSandbox ''alice'' ''sb-0'' 9000 no_failure (ex_state [ex_sandbox 0 S_stopped]) =
     (Inr (Some (toResponse (ex_sandbox 0 S_stopped) None)), ex_state [ex_sandbox 0 S_stopped]) \<and>
   startSandbox ''alice'' ''sb-0'' 9000 no_failure (ex_state [ex_detached]) =
     (Inl (Error ''Sandbox has no container''), ex_state [ex_detached]) \<and>
   stopSandbox ''alice'' ''sb-0'' 9000 no_failure (ex_state [ex_detached]) =
     (Inl (Error ''Sandbox has no container''), ex_state [ex_detached]) \<and>
   restartSandbox ''alice'' ''sb-0'' 9000 no_failure (ex_state [ex_detached]) =
     (Inl (Error ''Sandbox has no container''), ex_state [ex_detached]) \<and>
   fst (startSandbox ''alice'' ''sb-0'' 9000 server_error (ex_state [ex_sandbox 0 S_error])) =
     Inl (DockerError 500) \<and>
   docker_calls (snd (startSandbox ''alice'' ''sb-0'' 9000 server_error
                        (ex_state [ex_sandbox 0 S_error]))) = [StartContainer ''c-0''] \<and>
   sandboxes (snd (startSandbox ''alice'' ''sb-0'' 9000 server_error
                        (ex_state [ex_sandbox 0 S_error]))) = [ex_sandbox 0 S_error] \<and>
   fst (stopSandbox ''alice'' ''sb-0'' 9000 server_error (ex_state [ex_sandbox 0 S_running])) =
     Inl (DockerError 500) \<and>
   docker_calls (snd (stopSandbox ''alice'' ''sb-0'' 9000 server_error
                        (ex_state [ex_sandbox 0 S_running]))) = [StopContainer ''c-0''] \<and>
   sandboxes (snd (stopSandbox ''alice'' ''sb-0'' 9000 server_error
                        (ex_state [ex_sandbox 0 S_running]))) = [ex_sandbox 0 S_running] \<and>
   fst (restartSandbox ''alice'' ''sb-0'' 9000 server_error (ex_state [ex_sandbox 0 S_running])) =
     Inl (DockerError 500) \<and>
   docker_calls (snd (restartSandbox ''alice'' ''sb-0'' 9000 server_error
                        (ex_state [ex_sandbox 0 S_running]))) = [RestartContainer ''c-0''] \<and>
   sandboxes (snd (restartSandbox ''alice'' ''sb-0'' 9000 server_error
                        (ex_state [ex_sandbox 0 S_running]))) = [ex_sandbox 0 S_running] \<and>
   docker_calls (snd (startSandbox ''alice'' ''sb-0'' 9000 no_failure
                        (ex_state [ex_sandbox 0 S_error]))) = [StartContainer ''c-0''] \<and>
   map sb_status (sandboxes (snd (startSandbox ''alice'' ''sb-0'' 9000 no_failure
                        (ex_state [ex_sandbox 0 S_error])))) = [S_running] \<and>
   tasks (snd (startSandbox ''alice'' ''sb-0'' 9000 no_failure
                        (ex_state [ex_sandbox 0 S_error]))) = [CollectLogs ''sb-0'' ''c-0''] \<and>
   docker_calls (snd (stopSandbox ''alice'' ''sb-0'' 9000 not_modified
                        (ex_state [ex_sandbox 0 S_pending]))) = [StopContainer ''c-0''] \<and>
   map sb_status (sandboxes (snd (stopSandbox ''alice'' ''sb-0'' 9000 not_modified
                        (ex_state [ex_sandbox 0 S_pending])))) = [S_stopped] \<and>
   docker_calls (snd (restartSandbox ''alice'' ''sb-0'' 9000 no_failure
                        (ex_state [ex_sandbox 0 S_expired]))) = [RestartContainer ''c-0''] \<and>
   map sb_status (sandboxes (snd (restartSandbox ''alice'' ''sb-0'' 9000 no_failure
                        (ex_state [ex_sandbox 0 S_expired])))) = [S_running]"
proof -
  have q: "queryOne (\<lambda>r. sb_id r = ''sb-0'' \<and> sb_user_id r = ''alice'')
             (sandboxes (ex_state [ex_sandbox 0 st])) = Some (ex_sandbox 0 st)" for st
    by (simp add: ex_state_def ex_one_query)
  have d: "queryOne (\<lambda>r. sb_id r = ''sb-0'' \<and> sb_user_id r = ''alice'')
             (sandboxes (ex_state [ex_detached])) = Some ex_detached"
    by (simp add: ex_state_def ex_detached_query)
  have detached: "\<not> truthy (sb_container_id ex_detached)" "sb_status ex_detached = S_error"
    by (simp_all add: ex_detached_def truthy_def ex_sandbox_0)
  have api: "startContainer no_failure c = None" "restartContainer no_failure c = None"
      "stopContainer not_modified c = None"
      "startContainer server_error c = Some 500" "stopContainer server_error c = Some 500"
      "restartContainer server_error c = Some 500" for c
    by (simp_all add: startContainer_def stopContainer_def restartContainer_def no_failure_def
          not_modified_def server_error_def)
  note st = ex_state_def ex_sandbox_0 Let_def
  have noop:
    "startSandbox ''alice'' ''sb-0'' 9000 no_failure (ex_state [ex_sandbox 0 S_running]) =
       (Inr (Some (toResponse (ex_sandbox 0 S_running) None)), ex_state [ex_sandbox 0 S_running])"
    "stopSandbox ''alice'' ''sb-0'' 9000 no_failure (ex_state [ex_sandbox 0 S_stopped]) =
       (Inr (Some (toResponse (ex_sandbox 0 S_stopped) None)), ex_state [ex_sandbox 0 S_stopped])"
    using lifecycle_target_state_noop [OF q [of S_running], of 9000 no_failure]
          lifecycle_target_state_noop [OF q [of S_stopped], of 9000 no_failure]
    by (simp_all add: ex_sandbox_0)
  have none:
    "startSandbox ''alice'' ''sb-0'' 9000 no_failure (ex_state [ex_detached]) =
       (Inl (Error ''Sandbox has no container''), ex_state [ex_detached])"
    "stopSandbox ''alice'' ''sb-0'' 9000 no_failure (ex_state [ex_detached]) =
       (Inl (Error ''Sandbox has no container''), ex_state [ex_detached])"
    "restartSandbox ''alice'' ''sb-0'' 9000 no_failure (ex_state [ex_detached]) =
       (Inl (Error ''Sandbox has no container''), ex_state [ex_detached])"
    using lifecycle_target_state_noop [OF d, of 9000 no_failure] detached
    by simp_all
  have failing:
    "startSandbox ''alice'' ''sb-0'' 9000 server_error (ex_state [ex_sandbox 0 S_error]) =
       (Inl (DockerError 500),
        (ex_state [ex_sandbox 0 S_error])\<lparr> docker_calls := [StartContainer ''c-0''] \<rparr>)"
    "stopSandbox ''alice'' ''sb-0'' 9000 server_error (ex_state [ex_sandbox 0 S_running]) =
       (Inl (DockerError 500),
        (ex_state [ex_sandbox 0 S_running])\<lparr> docker_calls := [StopContainer ''c-0''] \<rparr>)"
    "restartSandbox ''alice'' ''sb-0'' 9000 server_error (ex_state [ex_sandbox 0 S_running]) =
       (Inl (DockerError 500),
        (ex_state [ex_sandbox 0 S_running])\<lparr> docker_calls := [RestartContainer ''c-0''] \<rparr>)"
    using lifecycle_target_state_noop [OF q [of S_error], of 9000 server_error "''c-0''" 500]
          lifecycle_target_state_noop [OF q [of S_running], of 9000 server_error "''c-0''" 500]
    by (simp_all add: api st)
  have success:
    "snd (startSandbox ''alice'' ''sb-0'' 9000 no_failure (ex_state [ex_sandbox 0 S_error])) =
       (ex_state [ex_sandbox 0 S_error])
         \<lparr> docker_calls := [StartContainer ''c-0''],
           sandboxes := [(ex_sandbox 0 S_error)
                           \<lparr> sb_status := S_running, sb_phase := P_healthy,
                             sb_started_at := Some 9000, sb_stopped_at := None \<rparr>],
           tasks := [CollectLogs ''sb-0'' ''c-0''] \<rparr>"
    "snd (stopSandbox ''alice'' ''sb-0'' 9000 not_modified (ex_state [ex_sandbox 0 S_pending])) =
       (ex_state [ex_sandbox 0 S_pending])
         \<lparr> docker_calls := [StopContainer ''c-0''],
           sandboxes := [(ex_sandbox 0 S_pending)
                           \<lparr> sb_status := S_stopped, sb_phase := P_stopped,
                             sb_stopped_at := Some 9000 \<rparr>] \<rparr>"
    "snd (restartSandbox ''alice'' ''sb-0'' 9000 no_failure (ex_state [ex_sandbox 0 S_expired])) =
       (ex_state [ex_sandbox 0 S_expired])
         \<lparr> docker_calls := [RestartContainer ''c-0''],
           sandboxes := [(ex_sandbox 0 S_expired)
                           \<lparr> sb_status := S_running, sb_phase := P_healthy,
                             sb_started_at := Some 9000, sb_stopped_at := None \<rparr>] \<rparr>"
    using lifecycle_target_state_noop [OF q [of S_error], of 9000 no_failure "''c-0''"]
          lifecycle_target_state_noop [OF q [of S_pending], of 9000 not_modified "''c-0''"]
          lifecycle_target_state_noop [OF q [of S_expired], of 9000 no_failure "''c-0''"]
    by (simp_all add: api st)
  show ?thesis
    by (simp add: noop none failing success) (simp add: ex_state_def)
qed

text \<open>C3 as stated fails: restarting a stopped sandbox calls the runtime and rewrites the
  row, and so do stopping a sandbox that is still pending and starting a sandbox in the
  error state.\<close>

theorem lifecycle_cross_state_counterexample:
  "sb_status (ex_sandbox 0 S_stopped) \<noteq> S_running \<and>
   docker_calls (snd (restartSandbox ''alice'' ''sb-0'' 9000 no_failure
                        (ex_state [ex_sandbox 0 S_stopped]))) = [RestartContainer ''c-0''] \<and>
   map sb_status (sandboxes (snd (restartSandbox ''alice'' ''sb-0'' 9000 no_failure
                        (ex_state [ex_sandbox 0 S_stopped])))) = [S_running] \<and>
   sb_status (ex_sandbox 0 S_pending) \<noteq> S_running \<and>
   docker_calls (snd (stopSandbox ''alice'' ''sb-0'' 9000 no_failure
                        (ex_state [ex_sandbox 0 S_pending]))) = [StopContainer ''c-0''] \<and>
   map sb_status (sandboxes (snd (stopSandbox ''alice'' ''sb-0'' 9000 no_failure
                        (ex_state [ex_sandbox 0 S_pending])))) = [S_stopped] \<and>
   sb_status (ex_sandbox 0 S_error) \<noteq> S_stopped \<and>
   docker_calls (snd (startSandbox ''alice'' ''sb-0'' 9000 no_failure
                        (ex_state [ex_sandbox 0 S_error]))) = [StartContainer ''c-0''] \<and>
   map sb_status (sandboxes (snd (startSandbox ''alice'' ''sb-0'' 9000 no_failure
                        (ex_state [ex_sandbox 0 S_error])))) = [S_running]"
  by (simp add: restartSandbox_def stopSandbox_def startSandbox_def ex_state_def ex_one_query
        ex_sandbox_0 truthy_def Let_def docker_call_def update_sandbox_def spawn_def
        no_failure_def restartContainer_def stopContainer_def startContainer_def)

section \<open>Tenant isolation\<close>

lemma other_user_query:
  assumes "distinct (map sb_id rows)" and "r \<in> set rows" and "sb_user_id r \<noteq> B"
  shows "queryOne (\<lambda>x. sb_id x = sb_id r \<and> sb_user_id x = B) rows = None"
proof -
  have "x = r" if "x \<in> set rows" "sb_id x = sb_id r" for x
    using assms(1,2) that by (metis unique_key_row)
  with assms(3) show ?thesis by (auto simp: queryOne_None)
qed

lemma deleted_query:
  "queryOne (\<lambda>x. sb_id x = sid \<and> P x) (sandboxes (delete_sandbox sid s)) = None"
  by (simp add: queryOne_None delete_sandbox_def)

text \<open>C4: for a sandbox owned by A and a caller B other than A, every operation on it in
  B's name answers not-found and returns the state unchanged (rows, runtime calls, tasks):
  get, start, stop, restart, destroy, logs, and the WebSocket attach on either endpoint.
  Each answer is the one B gets when the sandbox does not exist at all (the state with the
  row deleted), so the answer does not tell B that the sandbox exists.\<close>

theorem tenant_isolation:
  assumes pk: "distinct (map sb_id (sandboxes s))"
    and row: "r \<in> set (sandboxes s)" "sb_id r = sid" "sb_user_id r = A"
    and other: "A \<noteq> B"
  shows "getSandbox B sid s = None \<and>
         route_get_sandbox B sid s = (404, ''NOT_FOUND'') \<and>
         startSandbox B sid now api s = (Inl (NotFoundError ''Sandbox not found''), s) \<and>
         stopSandbox B sid now api s = (Inl (NotFoundError ''Sandbox not found''), s) \<and>
         restartSandbox B sid now api s = (Inl (NotFoundError ''Sandbox not found''), s) \<and>
         errorHandler (NotFoundError ''Sandbox not found'') = (404, ''NOT_FOUND'') \<and>
         destroySandbox B sid api s = (Inr False, s) \<and>
         route_delete_sandbox B sid api s = ((404, ''NOT_FOUND''), s) \<and>
         getLogs B sid n s = Inl (NotFoundError ''Sandbox not found'') \<and>
         ws_connection B sid endpoint now api s =
           (\<lparr> ws_sent = [F_error ''Sandbox not found''], ws_close = Some (4004, ''Not found'') \<rparr>, s) \<and>
         getSandbox B sid (delete_sandbox sid s) = getSandbox B sid s \<and>
         fst (startSandbox B sid now api (delete_sandbox sid s)) =
           fst (startSandbox B sid now api s) \<and>
         fst (stopSandbox B sid now api (delete_sandbox sid s)) =
           fst (stopSandbox B sid now api s) \<and>
         fst (restartSandbox B sid now api (delete_sandbox sid s)) =
           fst (restartSandbox B sid now api s) \<and>
         fst (destroySandbox B sid api (delete_sandbox sid s)) =
           fst (destroySandbox B sid api s) \<and>
         getLogs B sid n (delete_sandbox sid s) = getLogs B sid n s \<and>
         fst (ws_connection B sid endpoint now api (delete_sandbox sid s)) =
           fst (ws_connection B sid endpoint now api s)"
proof -
  have mine: "queryOne (\<lambda>x. sb_id x = sid \<and> sb_user_id x = B) (sandboxes s) = None"
    using other_user_query [OF pk row(1), of B] row(2,3) other by simp
  have any: "queryOne (\<lambda>x. sb_id x = sid) (sandboxes s) = Some r"
    using pk row(1,2) by (intro queryOne_unique [where f = sb_id]) auto
  have gone: "queryOne (\<lambda>x. sb_id x = sid \<and> sb_user_id x = B)
                (sandboxes (delete_sandbox sid s)) = None"
    by (rule deleted_query)
  have gone_any: "queryOne (\<lambda>x. sb_id x = sid) (sandboxes (delete_sandbox sid s)) = None"
    using deleted_query [of sid "\<lambda>x. True" s] by simp
  have get: "getSandbox B sid s = None" "getSandbox B sid (delete_sandbox sid s) = None"
    by (simp_all add: getSandbox_def mine gone)
  have start: "startSandbox B sid now api s = (Inl (NotFoundError ''Sandbox not found''), s)"
       "fst (startSandbox B sid now api (delete_sandbox sid s)) =
          Inl (NotFoundError ''Sandbox not found'')"
    by (simp_all add: startSandbox_def mine gone)
  have stop: "stopSandbox B sid now api s = (Inl (NotFoundError ''Sandbox not found''), s)"
       "fst (stopSandbox B sid now api (delete_sandbox sid s)) =
          Inl (NotFoundError ''Sandbox not found'')"
    by (simp_all add: stopSandbox_def mine gone)
  have restart: "restartSandbox B sid now api s = (Inl (NotFoundError ''Sandbox not found''), s)"
       "fst (restartSandbox B sid now api (delete_sandbox sid s)) =
          Inl (NotFoundError ''Sandbox not found'')"
    by (simp_all add: restartSandbox_def mine gone)
  have destroy: "destroySandbox B sid api s = (Inr False, s)"
       "fst (destroySandbox B sid api (delete_sandbox sid s)) = Inr False"
    by (simp_all add: destroySandbox_def mine gone)
  have logs: "getLogs B sid n s = Inl (NotFoundError ''Sandbox not found'')"
       "getLogs B sid n (delete_sandbox sid s) = Inl (NotFoundError ''Sandbox not found'')"
    by (simp_all add: getLogs_def mine gone)
  have ws: "ws_connection B sid endpoint now api s =
              (\<lparr> ws_sent = [F_error ''Sandbox not found''],
                 ws_close = Some (4004, ''Not found'') \<rparr>, s)"
       "fst (ws_connection B sid endpoint now api (delete_sandbox sid s)) =
          \<lparr> ws_sent = [F_error ''Sandbox not found''], ws_close = Some (4004, ''Not found'') \<rparr>"
    using row(3) other by (simp_all add: ws_connection_def any gone_any)
  have http: "route_get_sandbox B sid s = (404, ''NOT_FOUND'')"
       "route_delete_sandbox B sid api s = ((404, ''NOT_FOUND''), s)"
       "errorHandler (NotFoundError ''Sandbox not found'') = (404, ''NOT_FOUND'')"
    by (simp_all add: route_get_sandbox_def route_delete_sandbox_def get destroy errorHandler_def)
  show ?thesis
    by (simp only: get start stop restart destroy logs ws http fst_conv simp_thms)
qed

theorem tenant_isolation_witness:
  "ex_sandbox 0 S_running \<in> set (sandboxes ex_one_state) \<and>
   sb_user_id (ex_sandbox 0 S_running) \<noteq> ''bob'' \<and>
   getSandbox ''bob'' ''sb-0'' ex_one_state = None \<and>
   stopSandbox ''bob'' ''sb-0'' 9000 no_failure ex_one_state =
     (Inl (NotFoundError ''Sandbox not found''), ex_one_state) \<and>
   destroySandbox ''bob'' ''sb-0'' no_failure ex_one_state = (Inr False, ex_one_state) \<and>
   ws_connection ''bob'' ''sb-0'' E_terminal 9000 no_failure ex_one_state =
     (\<lparr> ws_sent = [F_error ''Sandbox not found''], ws_close = Some (4004, ''Not found'') \<rparr>,
      ex_one_state)"
proof -
  have h1: "distinct (map sb_id (sandboxes ex_one_state))"
    and h2: "ex_sandbox 0 S_running \<in> set (sandboxes ex_one_state)"
    by (simp_all add: ex_one_rows)
  have h3: "sb_id (ex_sandbox 0 S_running) = ''sb-0''"
    and h4: "sb_user_id (ex_sandbox 0 S_running) = ''alice''"
    and h5: "''alice'' \<noteq> ''bob''"
    by (simp_all add: ex_sandbox_0)
  show ?thesis
    using tenant_isolation [OF h1 h2 h3 h4 h5, of 9000 no_failure 100 E_terminal] h2
    by (simp add: ex_sandbox_0)
qed

section \<open>Environments: image or dockerfile, and versions\<close>

lemma insert_version_rows:
  "insert_version row s = Inr s' \<Longrightarrow>
     environment_versions s' = environment_versions s @ [row] \<and>
     environments s' = environments s"
  by (auto simp: insert_version_def split: if_splits)

lemma insert_environment_rows:
  "insert_environment row s = Inr s' \<Longrightarrow>
     environment_versions s' = environment_versions s"
  by (auto simp: insert_environment_def split: if_splits)

lemma insert_errors:
  "insert_environment erow s = Inl e \<Longrightarrow> e = DbError ''23505''"
  "insert_version vrow s = Inl e \<Longrightarrow> e = DbError ''23505''"
  by (auto simp: insert_environment_def insert_version_def split: if_splits)

text \<open>C6 (amended): \<open>createEnvironment\<close> fails with its validation error exactly when
  neither image nor dockerfile is given, and the schema refinement rejects exactly the same
  requests.  A request that gives at least one of them, both included, passes the check.
  When the call succeeds it stores one new version whose image and dockerfile are the
  given ones, so at least one of the two is populated.\<close>

theorem createEnvironment_image_or_dockerfile:
  "(fst (createEnvironment userId data eid vid now s) =
      Inl (Error ''Either image or dockerfile must be provided'')
    \<longleftrightarrow> \<not> truthy (ce_image data) \<and> \<not> truthy (ce_dockerfile data)) \<and>
   (CreateEnvironmentSchema_refine data
    \<longleftrightarrow> truthy (ce_image data) \<or> truthy (ce_dockerfile data)) \<and>
   (createEnvironment userId data eid vid now s = (Inr res, s') \<longrightarrow>
      (\<exists>row. environment_versions s' = environment_versions s @ [row] \<and>
             ver_version row = 1 \<and>
             ver_image row = or_null (ce_image data) \<and>
             ver_dockerfile row = or_null (ce_dockerfile data) \<and>
             (ver_image row \<noteq> None \<or> ver_dockerfile row \<noteq> None)))"
proof -
  have rejected: "fst (createEnvironment userId data eid vid now s) =
      Inl (Error ''Either image or dockerfile must be provided'')
    \<longleftrightarrow> \<not> truthy (ce_image data) \<and> \<not> truthy (ce_dockerfile data)"
    by (auto simp: createEnvironment_def Let_def split: sum.splits dest: insert_errors)
  have schema: "CreateEnvironmentSchema_refine data
    \<longleftrightarrow> truthy (ce_image data) \<or> truthy (ce_dockerfile data)"
    by (simp add: CreateEnvironmentSchema_refine_def)
  have stored: "\<exists>row. environment_versions s' = environment_versions s @ [row] \<and>
             ver_version row = 1 \<and>
             ver_image row = or_null (ce_image data) \<and>
             ver_dockerfile row = or_null (ce_dockerfile data) \<and>
             (ver_image row \<noteq> None \<or> ver_dockerfile row \<noteq> None)"
    if ok: "createEnvironment userId data eid vid now s = (Inr res, s')"
  proof -
    from ok have given: "truthy (ce_image data) \<or> truthy (ce_dockerfile data)"
      by (auto simp: createEnvironment_def split: if_splits)
    then have populated: "or_null (ce_image data) \<noteq> None \<or> or_null (ce_dockerfile data) \<noteq> None"
      by (auto simp: or_null_def truthy_def split: option.splits)
    from ok given populated show ?thesis
      by (auto simp: createEnvironment_def Let_def update_environment_row_def
               split: if_splits sum.splits
               dest!: insert_version_rows insert_environment_rows)
  qed
  from rejected schema stored show ?thesis by blast
qed

lemma ex_created:
  "createEnvironment ''alice'' (ex_create_env img df) ''env-1'' ''ver-1'' 1000 empty_state =
     (if \<not> truthy img \<and> \<not> truthy df
      then (Inl (Error ''Either image or dockerfile must be provided''), empty_state)
      else
        (Inr (\<lparr> e_id = ''env-1'', e_userId = ''alice'', e_name = ''demo'',
                 e_currentVersionId = Some ''ver-1'', e_createdAt = 1000, e_updatedAt = 1000 \<rparr>,
              mapVersion
                \<lparr> ver_id = ''ver-1'', ver_environment_id = ''env-1'', ver_version = 1,
                  ver_image = or_null img, ver_dockerfile = or_null df,
                  ver_build_files = [(''run.sh'', ''echo hello'')], ver_command = None,
                  ver_cpu = 100, ver_memory = 256, ver_ports = [], ver_env = [],
                  ver_secrets = [], ver_mounts = [], ver_created_at = 1000 \<rparr>),
         \<lparr> environments =
             [\<lparr> env_id = ''env-1'', env_user_id = ''alice'', env_name = ''demo'',
                env_current_version_id = Some ''ver-1'', env_created_at = 1000,
                env_updated_at = 1000 \<rparr>],
           environment_versions =
             [\<lparr> ver_id = ''ver-1'', ver_environment_id = ''env-1'', ver_version = 1,
                ver_image = or_null img, ver_dockerfile = or_null df,
                ver_build_files = [(''run.sh'', ''echo hello'')], ver_command = None,
                ver_cpu = 100, ver_memory = 256, ver_ports = [], ver_env = [],
                ver_secrets = [], ver_mounts = [], ver_created_at = 1000 \<rparr>],
           sandboxes = [], sandbox_logs = [], docker_calls = [], tasks = [] \<rparr>))"
  by (simp add: createEnvironment_def ex_create_env_def empty_state_def
        MAX_ENVIRONMENTS_PER_USER_def insert_environment_def insert_version_def
        update_environment_row_def mapEnvironment_def nullish_def Let_def)

theorem createEnvironment_image_or_dockerfile_witness:
  "truthy (ce_image (ex_create_env (Some ''nginx:alpine'') None)) \<and>
   isl (fst (createEnvironment ''alice'' (ex_create_env None None)
               ''env-1'' ''ver-1'' 1000 empty_state)) \<and>
   \<not> isl (fst (createEnvironment ''alice'' (ex_create_env (Some ''nginx:alpine'') None)
               ''env-1'' ''ver-1'' 1000 empty_state)) \<and>
   map ver_image (environment_versions
     (snd (createEnvironment ''alice'' (ex_create_env (Some ''nginx:alpine'') None)
             ''env-1'' ''ver-1'' 1000 empty_state))) = [Some ''nginx:alpine''] \<and>
   map ver_dockerfile (environment_versions
     (snd (createEnvironment ''alice'' (ex_create_env (Some ''nginx:alpine'') None)
             ''env-1'' ''ver-1'' 1000 empty_state))) = [None]"
proof -
  have given: "truthy (ce_image (ex_create_env (Some ''nginx:alpine'') None))"
    and absent: "\<not> truthy (ce_image (ex_create_env None None))"
                "\<not> truthy (ce_dockerfile (ex_create_env None None))"
    by (simp_all add: ex_create_env_def truthy_def)
  obtain res s' where ok:
    "createEnvironment ''alice'' (ex_create_env (Some ''nginx:alpine'') None)
       ''env-1'' ''ver-1'' 1000 empty_state = (Inr res, s')"
    by (simp add: ex_created truthy_def)
  have none: "environment_versions empty_state = []"
    by (simp add: empty_state_def)
  from createEnvironment_image_or_dockerfile
         [of "''alice''" "ex_create_env None None" "''env-1''" "''ver-1''" 1000 empty_state]
       absent
  have rejected: "isl (fst (createEnvironment ''alice'' (ex_create_env None None)
               ''env-1'' ''ver-1'' 1000 empty_state))"
    by simp
  from createEnvironment_image_or_dockerfile
         [of "''alice''" "ex_create_env (Some ''nginx:alpine'') None" "''env-1''" "''ver-1''"
             1000 empty_state res s'] ok
  obtain row where "environment_versions s' = [row]"
    "ver_image row = or_null (ce_image (ex_create_env (Some ''nginx:alpine'') None))"
    "ver_dockerfile row = or_null (ce_dockerfile (ex_create_env (Some ''nginx:alpine'') None))"
    by (auto simp: none)
  then show ?thesis
    using given rejected ok by (simp add: ex_create_env_def or_null_def truthy_def)
qed

text \<open>C6 as stated fails: a request that gives both an image and a dockerfile is accepted,
  by the service and by the schema refinement, and the stored version has both populated.\<close>

theorem createEnvironment_both_counterexample:
  "CreateEnvironmentSchema_refine (ex_create_env (Some ''nginx:alpine'') (Some ''FROM alpine'')) \<and>
   \<not> isl (fst (createEnvironment ''alice''
               (ex_create_env (Some ''nginx:alpine'') (Some ''FROM alpine''))
               ''env-1'' ''ver-1'' 1000 empty_state)) \<and>
   map ver_image (environment_versions
     (snd (createEnvironment ''alice''
             (ex_create_env (Some ''nginx:alpine'') (Some ''FROM alpine''))
             ''env-1'' ''ver-1'' 1000 empty_state))) = [Some ''nginx:alpine''] \<and>
   map ver_dockerfile (environment_versions
     (snd (createEnvironment ''alice''
             (ex_create_env (Some ''nginx:alpine'') (Some ''FROM alpine''))
             ''env-1'' ''ver-1'' 1000 empty_state))) = [Some ''FROM alpine'']"
  by (simp add: ex_created truthy_def or_null_def)
     (simp add: CreateEnvironmentSchema_refine_def ex_create_env_def truthy_def)

text \<open>C2 fails on the code: \<open>updateEnvironment\<close> neither reads nor writes the columns
  dockerfile, build_files and command.  An environment built from a dockerfile, updated
  with a patch that only changes the cpu, gets a version 2 without dockerfile, without
  build files and without image, while version 1 keeps them.\<close>

theorem updateEnvironment_drops_dockerfile:
  "map ver_version (environment_versions ex_built_state) = [1] \<and>
   map ver_dockerfile (environment_versions ex_built_state) = [Some ''FROM alpine''] \<and>
   map ver_build_files (environment_versions ex_built_state) = [[(''run.sh'', ''echo hello'')]] \<and>
   \<not> isl (fst (updateEnvironment ''alice'' ''env-1'' ex_patch ''ver-2'' 2000 ex_built_state)) \<and>
   map ver_version (environment_versions
     (snd (updateEnvironment ''alice'' ''env-1'' ex_patch ''ver-2'' 2000 ex_built_state)))
     = [1, 2] \<and>
   map ver_dockerfile (environment_versions
     (snd (updateEnvironment ''alice'' ''env-1'' ex_patch ''ver-2'' 2000 ex_built_state)))
     = [Some ''FROM alpine'', None] \<and>
   map ver_build_files (environment_versions
     (snd (updateEnvironment ''alice'' ''env-1'' ex_patch ''ver-2'' 2000 ex_built_state)))
     = [[(''run.sh'', ''echo hello'')], []] \<and>
   map ver_image (environment_versions
     (snd (updateEnvironment ''alice'' ''env-1'' ex_patch ''ver-2'' 2000 ex_built_state)))
     = [None, None]"
  by (simp add: ex_built_state_def ex_created truthy_def or_null_def updateEnvironment_def
        queryOne_def ex_patch_def insert_version_def update_environment_row_def nullish_def
        Let_def)

text \<open>What \<open>updateEnvironment\<close> does keep: on success the version rows are the old ones
  followed by one new row, numbered one above the current version, with the secrets of the
  current version and, for image, cpu, memory, ports, env and mounts, the patched or the
  current value.\<close>

lemma updateEnvironment_appends:
  assumes "updateEnvironment userId environmentId data vid now s = (Inr res, s')"
  shows "\<exists>envRow cur row.
           queryOne (\<lambda>e. env_id e = environmentId \<and> env_user_id e = userId) (environments s)
             = Some envRow \<and>
           queryOne (\<lambda>v. Some (ver_id v) = env_current_version_id envRow)
             (environment_versions s) = Some cur \<and>
           environment_versions s' = environment_versions s @ [row] \<and>
           ver_version row = ver_version cur + 1 \<and>
           ver_secrets row = ver_secrets cur \<and>
           ver_image row = (case ue_image data of Some i \<Rightarrow> Some i | None \<Rightarrow> ver_image cur) \<and>
           ver_cpu row = nullish (ue_cpu data) (ver_cpu cur) \<and>
           ver_memory row = nullish (ue_memory data) (ver_memory cur) \<and>
           ver_ports row = nullish (ue_ports data) (ver_ports cur) \<and>
           ver_env row = nullish (ue_env data) (ver_env cur) \<and>
           ver_mounts row = nullish (ue_mounts data) (ver_mounts cur) \<and>
           ver_dockerfile row = None \<and> ver_build_files row = [] \<and> ver_command row = None"
  using assms
  by (auto simp: updateEnvironment_def Let_def update_environment_row_def
           split: option.splits sum.splits dest!: insert_version_rows)

section \<open>Redaction is idempotent\<close>

lemma upper_simps [simp]: "upper 61 = 61" "upper 91 = 91"
  by (simp_all add: upper_def)

lemma upper_eq_61: "upper x = 61 \<longleftrightarrow> x = 61"
  by (auto simp: upper_def)

lemma upper_letter: "is_letter a \<Longrightarrow> upper x = upper a \<Longrightarrow> is_letter x"
  by (auto simp: upper_def is_letter_def split: if_splits)

lemma letter_classes:
  "is_letter c \<Longrightarrow> c \<noteq> 91 \<and> \<not> is_space c \<and> in_class Alnum c \<and> in_class NonSpace c"
  by (auto simp: is_letter_def is_space_def)

lemma rmatch_suffix:
  "rmatch items s = Some r \<Longrightarrow> \<exists>m. s = m @ r"
  "rplus k items s = Some r \<Longrightarrow> \<exists>m. s = m @ r"
proof (induction items s and k items s arbitrary: r and r rule: rmatch_rplus.induct)
  case (1 s)
  then show ?case by simp
next
  case (3 a items x xs)
  then have "\<exists>m. xs = m @ r" by (auto split: if_splits)
  then obtain m where "xs = m @ r" ..
  then have "x # xs = (x # m) @ r" by simp
  then show ?case by blast
next
  case (5 a items x xs)
  then have "\<exists>m. xs = m @ r" by (auto split: if_splits)
  then obtain m where "xs = m @ r" ..
  then have "x # xs = (x # m) @ r" by simp
  then show ?case by blast
next
  case (7 k items x xs)
  then have "\<exists>m. xs = m @ r" by (auto split: if_splits)
  then obtain m where "xs = m @ r" ..
  then have "x # xs = (x # m) @ r" by simp
  then show ?case by blast
next
  case (9 k items x xs)
  then have "\<exists>m. xs = m @ r" by (auto split: if_splits)
  then obtain m where "xs = m @ r" ..
  then have "x # xs = (x # m) @ r" by simp
  then show ?case by blast
next
  case (10 k items)
  then show ?case by simp
next
  case (11 k items x xs)
  show ?case
  proof (cases "in_class k x \<and> rplus k items xs \<noteq> None")
    case True
    with 11 have "\<exists>m. xs = m @ r" by auto
    then obtain m where "xs = m @ r" ..
    then have "x # xs = (x # m) @ r" by simp
    then show ?thesis by blast
  next
    case False
    with 11 show ?thesis by (auto split: if_splits option.splits)
  qed
qed simp_all


lemma rplus_nil: "rplus k [] s = Some (dropWhile (in_class k) s)"
  by (induction s) auto

lemma rplus_word_eq:
  "rplus Word (ChrI 61 # items) s =
     (case dropWhile (in_class Word) s of
        [] \<Rightarrow> None
      | y # ys \<Rightarrow> if y = 61 then rmatch items ys else None)"
proof (induction s)
  case Nil
  then show ?case by simp
next
  case (Cons x xs)
  have not_eq: "in_class Word x \<Longrightarrow> upper x \<noteq> 61"
    by (auto simp: upper_eq_61 is_letter_def is_digit_def)
  show ?case
  proof (cases "in_class Word x")
    case True
    with Cons not_eq show ?thesis by (auto split: list.splits option.splits)
  next
    case False
    then show ?thesis by (simp add: upper_eq_61)
  qed
qed

lemma dropWhile_word_eq:
  "\<forall>c \<in> set w. in_class Word c \<Longrightarrow> dropWhile (in_class Word) (w @ 61 # rest) = 61 # rest"
proof -
  assume "\<forall>c \<in> set w. in_class Word c"
  moreover have "\<not> in_class Word 61" by (simp add: is_letter_def is_digit_def)
  ultimately show ?thesis by (simp add: dropWhile_append3)
qed

lemma keyword_trigger:
  "keyword_shape q \<Longrightarrow> rmatch q s = Some r0 \<Longrightarrow>
     \<exists>k c r. s = k @ c # r \<and> 91 \<notin> set k \<and>
       (\<forall>c' r'. c' = c \<or> is_letter c' \<longrightarrow> rmatch q (k @ c' # r') \<noteq> None)"
proof (induction q arbitrary: s r0 rule: keyword_shape.induct)
  case (1 k)
  then obtain x xs where s: "s = x # xs" and x: "in_class k x"
    by (cases s) (auto split: if_splits)
  have "rmatch [Plus k] ([] @ c' # r') \<noteq> None" if "c' = x \<or> is_letter c'" for c' r'
    using that x 1(1) by (auto simp: rplus_nil dest: letter_classes)
  with s show ?case by (metis append_Nil empty_iff list.set(1))
next
  case (2 k a items)
  then have shape: "k = Word" "a = 61" "keyword_shape items" by simp_all
  from 2(3) obtain x xs where s: "s = x # xs" and x: "in_class Word x"
    and rest: "rplus Word (ChrI 61 # items) xs = Some r0"
    unfolding shape by (cases s) (auto split: if_splits)
  from rest obtain ys where dw: "dropWhile (in_class Word) xs = 61 # ys"
    and m: "rmatch items ys = Some r0"
    by (auto simp: rplus_word_eq split: list.splits if_splits)
  from 2(1) [OF shape(3) m] obtain k' c r where ys: "ys = k' @ c # r" and nb: "91 \<notin> set k'"
    and trig: "\<forall>c' r'. c' = c \<or> is_letter c' \<longrightarrow> rmatch items (k' @ c' # r') \<noteq> None"
    by blast
  let ?w = "takeWhile (in_class Word) xs"
  have xs: "xs = ?w @ 61 # ys" using dw by (metis takeWhile_dropWhile_id)
  have w: "\<forall>c \<in> set ?w. in_class Word c" by (auto dest: set_takeWhileD)
  have w91: "91 \<notin> set ?w"
    using w by (auto simp: is_letter_def is_digit_def)
  have x91: "x \<noteq> 91" using x by (auto simp: is_letter_def is_digit_def)
  let ?k = "x # ?w @ 61 # k'"
  have "s = ?k @ c # r" using s xs ys by simp
  moreover have "91 \<notin> set ?k" using nb w91 x91 by simp
  moreover have "rmatch (Plus k # ChrI a # items) (?k @ c' # r') \<noteq> None"
    if "c' = c \<or> is_letter c'" for c' r'
  proof -
    have "rmatch (Plus Word # ChrI 61 # items) (?k @ c' # r') =
            rplus Word (ChrI 61 # items) (?w @ 61 # k' @ c' # r')"
      using x by simp
    also have "\<dots> = rmatch items (k' @ c' # r')"
      by (simp add: rplus_word_eq dropWhile_word_eq [OF w])
    finally have "rmatch (Plus Word # ChrI 61 # items) (?k @ c' # r') =
                    rmatch items (k' @ c' # r')" .
    moreover have "rmatch items (k' @ c' # r') \<noteq> None" using trig that by blast
    ultimately show ?thesis using shape(1,2) by metis
  qed
  ultimately show ?case by blast
next
  case (3 a items)
  then have shape: "upper a \<noteq> 91" "keyword_shape items" by simp_all
  from 3(3) obtain x xs where s: "s = x # xs" and x: "upper x = upper a"
    and m: "rmatch items xs = Some r0"
    by (cases s) (auto split: if_splits)
  from 3(1) [OF shape(2) m] obtain k' c r where xs: "xs = k' @ c # r" and nb: "91 \<notin> set k'"
    and trig: "\<forall>c' r'. c' = c \<or> is_letter c' \<longrightarrow> rmatch items (k' @ c' # r') \<noteq> None"
    by blast
  have "x \<noteq> 91" using x shape(1) by auto
  then have "s = (x # k') @ c # r \<and> 91 \<notin> set (x # k') \<and>
      (\<forall>c' r'. c' = c \<or> is_letter c' \<longrightarrow> rmatch (ChrI a # items) ((x # k') @ c' # r') \<noteq> None)"
    using s xs nb trig x by simp
  then show ?case by blast
qed simp_all


lemma headed_nil: "letter_headed p \<Longrightarrow> rmatch p [] = None"
  by (cases p rule: letter_headed.cases) simp_all

lemma headed_match:
  assumes "letter_headed p" and "rmatch p (x # xs) = Some r"
  shows "is_letter x \<and> length r \<le> length xs"
proof -
  from assms(1) obtain a items where p: "p = ChrI a # items" and a: "is_letter a"
    by (cases p rule: letter_headed.cases) simp_all
  with assms(2) have x: "upper x = upper a" and m: "rmatch items xs = Some r"
    by (auto split: if_splits)
  from m obtain pre where "xs = pre @ r" by (auto dest: rmatch_suffix(1))
  then have "length r \<le> length xs" by simp
  with upper_letter [OF a x] show ?thesis by simp
qed

lemma replace_headed:
  assumes "letter_headed p"
  shows "replace_all p rep [] = []"
    and "replace_all p rep (x # xs) =
           (case rmatch p (x # xs) of
              None \<Rightarrow> x # replace_all p rep xs
            | Some r \<Rightarrow> rep @ replace_all p rep r)"
  using assms by (auto simp: headed_nil split: option.splits dest: headed_match)

declare replace_all.simps [simp del]

lemma no_match_suffix: "no_match q (m @ r) \<Longrightarrow> no_match q r"
  by (induction m) auto

lemma no_match_head: "no_match q s \<Longrightarrow> rmatch q s = None"
  by (cases s) auto

lemma replace_prefix:
  assumes "letter_headed p"
  shows "replace_all p (91 # t) s = k @ c # r \<Longrightarrow> 91 \<notin> set k \<Longrightarrow>
           \<exists>c' r'. s = k @ c' # r' \<and> (c' = c \<or> is_letter c')"
proof (induction k arbitrary: s)
  case Nil
  show ?case
  proof (cases s)
    case Nil
    with \<open>replace_all p (91 # t) s = [] @ c # r\<close> assms show ?thesis
      by (simp add: replace_headed)
  next
    case (Cons x xs)
    show ?thesis
    proof (cases "rmatch p (x # xs)")
      case None
      with Cons Nil.prems(1) assms show ?thesis by (simp add: replace_headed)
    next
      case (Some r0)
      with assms have "is_letter x" by (auto dest: headed_match)
      with Cons show ?thesis by simp
    qed
  qed
next
  case (Cons y k)
  then have y: "y \<noteq> 91" by auto
  show ?case
  proof (cases s)
    case Nil
    with Cons.prems(1) assms show ?thesis by (simp add: replace_headed)
  next
    case s: (Cons x xs)
    show ?thesis
    proof (cases "rmatch p (x # xs)")
      case None
      with s Cons.prems(1) assms have "x = y" and "replace_all p (91 # t) xs = k @ c # r"
        by (simp_all add: replace_headed)
      moreover from Cons.prems(2) have "91 \<notin> set k" by simp
      ultimately obtain c' r' where "xs = k @ c' # r'" "c' = c \<or> is_letter c'"
        using Cons.IH by blast
      with s \<open>x = y\<close> show ?thesis by simp
    next
      case (Some r0)
      with s Cons.prems(1) assms y show ?thesis by (simp add: replace_headed)
    qed
  qed
qed

lemma replace_no_new_match:
  assumes "letter_headed p" and "keyword_shape q"
    and "rmatch q (replace_all p (91 # t) s) \<noteq> None"
  shows "rmatch q s \<noteq> None"
proof -
  from assms(3) obtain r0 where "rmatch q (replace_all p (91 # t) s) = Some r0" by auto
  from keyword_trigger [OF assms(2) this] obtain k c r where
    out: "replace_all p (91 # t) s = k @ c # r" and nb: "91 \<notin> set k" and
    trig: "\<forall>c' r'. c' = c \<or> is_letter c' \<longrightarrow> rmatch q (k @ c' # r') \<noteq> None"
    by blast
  from replace_prefix [OF assms(1) out nb] obtain c' r' where
    "s = k @ c' # r'" "c' = c \<or> is_letter c'" by blast
  with trig show ?thesis by blast
qed

lemma replace_keeps_no_match:
  assumes p: "letter_headed p" and q: "keyword_shape q"
    and token: "\<And>out. no_match q out \<Longrightarrow> no_match q ((91 # t) @ out)"
  shows "no_match q s \<Longrightarrow> no_match q (replace_all p (91 # t) s)"
proof (induction s rule: length_induct)
  case (1 s)
  show ?case
  proof (cases s)
    case Nil
    with 1 p show ?thesis by (simp add: replace_headed)
  next
    case (Cons x xs)
    show ?thesis
    proof (cases "rmatch p (x # xs)")
      case None
      have "no_match q xs" using 1(2) Cons by simp
      then have tail: "no_match q (replace_all p (91 # t) xs)"
        using 1(1) Cons by simp
      have "rmatch q (x # xs) = None" using 1(2) Cons by simp
      then have "rmatch q (replace_all p (91 # t) (x # xs)) = None"
        using replace_no_new_match [OF p q] by blast
      with tail None Cons p show ?thesis by (simp add: replace_headed)
    next
      case (Some r0)
      then have len: "length r0 < length s" using p Cons by (auto dest: headed_match)
      from Some obtain m where "x # xs = m @ r0" by (auto dest: rmatch_suffix(1))
      with 1(2) Cons have "no_match q r0" by (metis no_match_suffix)
      with 1(1) len have "no_match q (replace_all p (91 # t) r0)" by blast
      then have "no_match q ((91 # t) @ replace_all p (91 # t) r0)" by (rule token)
      with Some Cons p show ?thesis by (simp add: replace_headed)
    qed
  qed
qed

lemma replace_removes_matches:
  assumes p: "letter_headed p" and q: "keyword_shape p"
    and token: "\<And>out. no_match p out \<Longrightarrow> no_match p ((91 # t) @ out)"
  shows "no_match p (replace_all p (91 # t) s)"
proof (induction s rule: length_induct)
  case (1 s)
  show ?case
  proof (cases s)
    case Nil
    with p show ?thesis by (simp add: replace_headed headed_nil)
  next
    case (Cons x xs)
    show ?thesis
    proof (cases "rmatch p (x # xs)")
      case None
      have tail: "no_match p (replace_all p (91 # t) xs)"
        using 1 Cons by simp
      have "rmatch p (replace_all p (91 # t) (x # xs)) = None"
        using replace_no_new_match [OF p q] None by blast
      with tail None Cons p show ?thesis by (simp add: replace_headed)
    next
      case (Some r0)
      then have len: "length r0 < length s" using p Cons by (auto dest: headed_match)
      with 1 have "no_match p (replace_all p (91 # t) r0)" by blast
      then have "no_match p ((91 # t) @ replace_all p (91 # t) r0)" by (rule token)
      with Some Cons p show ?thesis by (simp add: replace_headed)
    qed
  qed
qed

lemma replace_identity:
  "letter_headed p \<Longrightarrow> no_match p s \<Longrightarrow> replace_all p rep s = s"
  by (induction s) (simp_all add: replace_headed)


lemma REDACTED_head: "REDACTED = 91 # tl REDACTED"
  by (simp add: REDACTED_def js_def)

lemma patterns_shape:
  "p \<in> set secret_patterns \<Longrightarrow> keyword_shape p \<and> letter_headed p"
  by (auto simp: secret_patterns_def ci_def upper_def is_letter_def)

lemma patterns_token:
  "p \<in> set secret_patterns \<Longrightarrow> no_match p out \<Longrightarrow> no_match p (REDACTED @ out)"
  by (auto simp: secret_patterns_def ci_def REDACTED_def js_def upper_def)

lemma fold_replace_no_match:
  assumes "set ps \<union> set seen \<subseteq> set secret_patterns"
    and "\<forall>q \<in> set seen. no_match q s"
  shows "\<forall>q \<in> set seen \<union> set ps.
           no_match q (fold (\<lambda>p redacted. replace_all p REDACTED redacted) ps s)"
  using assms
proof (induction ps arbitrary: seen s)
  case Nil
  then show ?case by simp
next
  case (Cons p ps)
  let ?s1 = "replace_all p REDACTED s"
  have p: "keyword_shape p" "letter_headed p" using Cons.prems(1) patterns_shape by auto
  have tok: "no_match q out \<Longrightarrow> no_match q ((91 # tl REDACTED) @ out)"
    if "q \<in> set (p # seen)" for q out
    using that Cons.prems(1) patterns_token [of q out] REDACTED_head by auto
  have new: "no_match p ?s1"
    using replace_removes_matches [OF p(2) p(1), of "tl REDACTED" s] tok [of p] REDACTED_head
    by simp
  have old: "no_match q ?s1" if "q \<in> set seen" for q
  proof -
    have "keyword_shape q" using that Cons.prems(1) patterns_shape by auto
    moreover have "no_match q s" using that Cons.prems(2) by simp
    ultimately show ?thesis
      using replace_keeps_no_match [OF p(2), of q "tl REDACTED" s] tok [of q] that REDACTED_head
      by simp
  qed
  have "\<forall>q \<in> set (p # seen) \<union> set ps.
          no_match q (fold (\<lambda>p redacted. replace_all p REDACTED redacted) ps ?s1)"
    using Cons.prems(1) new old by (intro Cons.IH) auto
  then show ?case by simp
qed

lemma fold_replace_identity:
  "set ps \<subseteq> set secret_patterns \<Longrightarrow> \<forall>p \<in> set ps. no_match p s \<Longrightarrow>
     fold (\<lambda>p redacted. replace_all p REDACTED redacted) ps s = s"
proof (induction ps)
  case Nil
  then show ?case by simp
next
  case (Cons p ps)
  then have "replace_all p REDACTED s = s"
    using patterns_shape [of p] by (simp add: replace_identity)
  with Cons show ?case by simp
qed

text \<open>C10: redaction is idempotent.  After one pass no pattern matches anywhere in the
  text: a replacement removes every match of its pattern, and the inserted \<open>[REDACTED]\<close>
  neither matches a pattern nor completes a match with the text around it.\<close>

theorem redactSecrets_idempotent: "redactSecrets (redactSecrets s) = redactSecrets s"
proof -
  have "\<forall>q \<in> set [] \<union> set secret_patterns. no_match q (redactSecrets s)"
    unfolding redactSecrets_def by (rule fold_replace_no_match) simp_all
  then have "\<forall>p \<in> set secret_patterns. no_match p (redactSecrets s)" by simp
  then show ?thesis
    using fold_replace_identity [of secret_patterns "redactSecrets s"]
    by (simp add: redactSecrets_def)
qed

section \<open>Decoding the multiplexed log stream\<close>




lemma header_take: "8 \<le> length b \<Longrightarrow> readUInt32BE (take 8 (b @ y)) 4 = readUInt32BE (take 8 b) 4"
  by simp


















section \<open>Stored copies of a log event\<close>

lemma redact_hello: "redactSecrets (js ''hello'') = js ''hello''"
  by (simp add: redactSecrets_def secret_patterns_def ci_def js_def replace_all.simps upper_def)

lemma ex_started:
  "ex_started_state =
     \<lparr> environments = [ex_environment], environment_versions = [ex_version],
       sandboxes =
         [(ex_sandbox 0 S_stopped)
            \<lparr> sb_status := S_running, sb_phase := P_healthy, sb_started_at := Some 9000,
              sb_stopped_at := None \<rparr>],
       sandbox_logs = [], docker_calls = [StartContainer ''c-0''],
       tasks = [CollectLogs ''sb-0'' ''c-0''] \<rparr>"
  by (simp add: ex_started_state_def startSandbox_def ex_state_def ex_one_query ex_sandbox_0
        truthy_def Let_def docker_call_def update_sandbox_def spawn_def no_failure_def
        startContainer_def)

lemma ex_viewed:
  "ex_viewed_state =
     ex_started_state \<lparr> tasks := [CollectLogs ''sb-0'' ''c-0'',
                                  StreamContainerLogs ''sb-0'' ''c-0'' 9] \<rparr>"
  by (simp add: ex_viewed_state_def ws_connection_def ex_started queryOne_def ex_sandbox_0
        handleLogStream_def truthy_def spawn_def)

text \<open>C8 fails on the code: the collector stores every event, and the tail of each
  connected log viewer stores it again.  With no viewer one event gives one row; with one
  viewer the same event gives two equal rows.\<close>

theorem log_event_stored_per_reader:
  "sandbox_logs ex_started_state = [] \<and>
   sandbox_logs (fst (deliver_log_event ''c-0'' ex_log ex_started_state)) =
     [\<lparr> log_sandbox_id = ''sb-0'', log_type = stdout, log_text = js ''hello'',
        log_timestamp = 9500 \<rparr>] \<and>
   sandbox_logs ex_viewed_state = [] \<and>
   sandbox_logs (fst (deliver_log_event ''c-0'' ex_log ex_viewed_state)) =
     [\<lparr> log_sandbox_id = ''sb-0'', log_type = stdout, log_text = js ''hello'',
        log_timestamp = 9500 \<rparr>,
      \<lparr> log_sandbox_id = ''sb-0'', log_type = stdout, log_text = js ''hello'',
        log_timestamp = 9500 \<rparr>]"
  by (simp add: ex_viewed ex_started deliver_log_event_def collectLogs_event_def
        streamContainerLogs_event_def insert_log_def retain_recent_def ex_log_def
        redact_hello ex_sandbox_0 Let_def upt_conv_Cons)

section \<open>Secrets: round trip and tampering\<close>

lemma initMasterKey_length:
  assumes "initMasterKey lib keyBase64 production generated = Inr key"
    and "length generated = keyLength"
  shows "length key = keyLength"
  using assms by (auto simp: initMasterKey_def split: if_splits option.splits)















end
